theory Spec2Isabelle
  imports Complex_Main "HOL-Library.Log_Nat"
begin

section \<open>The payroll department: work types, bonus strategies and the registry\<close>

text \<open>
  The program keeps a list of work types, each with a name, a base pay and a bonus
  strategy, and computes the pay with bonus and the average pay over the list.

  Conventions of the embedding:
  \<^item> a C++ \<open>double\<close> that holds a number is the real number it denotes, so an argument or a
    stored field is a \<open>real\<close> and the comparisons of the code are those of the reals, which
    is what they are on doubles. An infinity or a NaN as an argument is not represented, and
    the two zeros are one value;
  \<^item> the result of an arithmetic operation on doubles is a \<open>double_value\<close>: the exact result
    rounded to the nearest binary64 number, ties to even, or \<open>NotFinite\<close> when the code's
    result is an infinity or a NaN. Every operation rounds to binary64 by itself, as the
    compiled code does with SSE2 arithmetic;
  \<^item> a \<open>std::string\<close> is a \<open>string\<close> (a list of bytes), \<open>size()\<close> is \<open>length\<close> and
    \<open>==\<close> is equality of the byte lists;
  \<^item> a thrown exception is the \<open>Inl\<close> of a sum; every method returns its result together
    with the department as it is after the call, also when it throws;
  \<^item> what a method writes to \<open>std::cerr\<close> or \<open>std::cout\<close> is returned as a list of items;
    the fixed texts are constructors, and a number written to the stream is kept as the
    number (its rendering as digits is not modelled).
\<close>

subsection \<open>Arithmetic of \<open>double\<close>\<close>

datatype double_value = Finite real | NotFinite

text \<open>
  The binary exponent of a positive number, not below that of the smallest normal number:
  \<open>2 powi e \<le> a < 2 powi (e + 1)\<close> when \<open>a\<close> is at least \<open>2 powi (- 1022)\<close>.
\<close>

definition exponent :: "real \<Rightarrow> int" where
  "exponent a = (if a < 2 powi (- 1022) then - 1022 else bitlen \<lfloor>a * 2 ^ 1022\<rfloor> - 1023)"

definition round_half_even :: "real \<Rightarrow> int" where
  "round_half_even y =
     (let f = \<lfloor>y\<rfloor> in
      if y - of_int f < 1 / 2 then f
      else if y - of_int f > 1 / 2 then f + 1
      else if even f then f else f + 1)"

text \<open>
  Rounding to 53 significant bits: the nearest multiple of \<open>2 powi (e - 52)\<close>, where \<open>e\<close>
  is the exponent, so that numbers below \<open>2 powi (- 1022)\<close> are rounded to multiples of
  \<open>2 powi (- 1074)\<close>. A result of magnitude \<open>2 ^ 1024\<close> or more is an infinity in the code.
\<close>

definition round_nearest :: "real \<Rightarrow> real" where
  "round_nearest x =
     (let q = 2 powi (exponent \<bar>x\<bar> - 52) in of_int (round_half_even (x / q)) * q)"

definition rnd :: "real \<Rightarrow> double_value" where
  "rnd x = (if \<bar>round_nearest x\<bar> < 2 ^ 1024 then Finite (round_nearest x) else NotFinite)"

text \<open>A real number is a double when rounding leaves it as it is.\<close>

definition is_double :: "real \<Rightarrow> bool" where
  "is_double x \<longleftrightarrow> rnd x = Finite x"

text \<open>
  Sum and product. An operand that is an infinity or a NaN gives an infinity or a NaN.
\<close>

fun fadd :: "double_value \<Rightarrow> double_value \<Rightarrow> double_value" where
  "fadd (Finite x) (Finite y) = rnd (x + y)"
| "fadd _ _ = NotFinite"

fun fmul :: "double_value \<Rightarrow> double_value \<Rightarrow> double_value" where
  "fmul (Finite x) (Finite y) = rnd (x * y)"
| "fmul _ _ = NotFinite"

text \<open>
  The quotient by a divisor that is a number: the divisors of the program are the
  constant \<open>100.0\<close> and the converted size of the vector. Dividing by zero gives an
  infinity or a NaN.
\<close>

fun fdiv :: "double_value \<Rightarrow> real \<Rightarrow> double_value" where
  "fdiv (Finite x) y = (if y = 0 then NotFinite else rnd (x / y))"
| "fdiv NotFinite y = NotFinite"

subsection \<open>Exceptions\<close>

datatype PayrollException =
    InvalidRateException string
  | DuplicateWorkTypeException string
  | EmptyWorkListException string

text \<open>The text of \<open>what()\<close>: each class prefixes the message it is constructed with.\<close>

fun what :: "PayrollException \<Rightarrow> string" where
  "what (InvalidRateException msg) = ''Invalid rate: '' @ msg"
| "what (DuplicateWorkTypeException msg) = ''Duplicate work type: '' @ msg"
| "what (EmptyWorkListException msg) = ''Work list is empty: '' @ msg"

definition isInvalidRate :: "PayrollException + 'a \<Rightarrow> bool" where
  "isInvalidRate r = (case r of Inl (InvalidRateException msg) \<Rightarrow> True | _ \<Rightarrow> False)"

definition isDuplicateWorkType :: "PayrollException + 'a \<Rightarrow> bool" where
  "isDuplicateWorkType r =
     (case r of Inl (DuplicateWorkTypeException msg) \<Rightarrow> True | _ \<Rightarrow> False)"

definition isEmptyWorkList :: "PayrollException + 'a \<Rightarrow> bool" where
  "isEmptyWorkList r = (case r of Inl (EmptyWorkListException msg) \<Rightarrow> True | _ \<Rightarrow> False)"

subsection \<open>Bonus strategies\<close>

text \<open>
  \<open>IBonusStrategy\<close> has two implementations; \<open>PercentageBonusStrategy\<close> holds its
  \<open>bonusPercent\<close>. \<open>computePay\<close> of the percentage strategy is the expression
  \<open>basePay * (1.0 + bonusPercent / 100.0)\<close>: a quotient, a sum and a product of doubles.
\<close>

datatype IBonusStrategy = NoBonusStrategy | PercentageBonusStrategy real

fun computePay :: "IBonusStrategy \<Rightarrow> real \<Rightarrow> double_value" where
  "computePay NoBonusStrategy pay = Finite pay"
| "computePay (PercentageBonusStrategy bonusPercent) pay =
     fmul (Finite pay) (fadd (Finite 1) (fdiv (Finite bonusPercent) 100))"

text \<open>The constructor of \<open>PercentageBonusStrategy\<close>, with its two range checks.\<close>

definition make_PercentageBonusStrategy :: "real \<Rightarrow> PayrollException + IBonusStrategy" where
  "make_PercentageBonusStrategy percent =
     (if percent < 0 then Inl (InvalidRateException ''bonus percent must be >= 0'')
      else if percent > 100 then Inl (InvalidRateException ''bonus percent cannot exceed 100%'')
      else Inr (PercentageBonusStrategy percent))"

subsection \<open>Work types\<close>

record WorkTypeBase =
  name :: string
  basePay :: real
  bonusStrategy :: IBonusStrategy

text \<open>
  The constructor of \<open>WorkTypeBase\<close>. The strategy is a \<open>shared_ptr\<close>, which may be null:
  \<open>None\<close> here. A constructed object holds a strategy that is not null.
\<close>

definition make_WorkTypeBase ::
  "string \<Rightarrow> real \<Rightarrow> IBonusStrategy option \<Rightarrow> PayrollException + WorkTypeBase" where
  "make_WorkTypeBase nm pay strategy =
     (if nm = [] then Inl (InvalidRateException ''work type name must not be empty'')
      else if pay \<le> 0 then Inl (InvalidRateException ''base pay must be > 0'')
      else if pay > 1000000 then Inl (InvalidRateException ''base pay cannot exceed 1,000,000'')
      else case strategy of
             None \<Rightarrow> Inl (InvalidRateException ''bonus strategy must not be null'')
           | Some s \<Rightarrow> Inr \<lparr>name = nm, basePay = pay, bonusStrategy = s\<rparr>)"

definition getName :: "WorkTypeBase \<Rightarrow> string" where
  "getName w = name w"

definition getBasePay :: "WorkTypeBase \<Rightarrow> real" where
  "getBasePay w = basePay w"

definition getFinalPay :: "WorkTypeBase \<Rightarrow> double_value" where
  "getFinalPay w = computePay (bonusStrategy w) (basePay w)"

subsection \<open>The department\<close>

record PayrollDepartment =
  workTypes :: "WorkTypeBase list"

text \<open>The default constructor: an empty vector.\<close>

definition new_PayrollDepartment :: PayrollDepartment where
  "new_PayrollDepartment = \<lparr>workTypes = []\<rparr>"

text \<open>The loop of \<open>existsWorkType\<close> over the vector, returning at the first equal name.\<close>

fun existsWorkType_loop :: "WorkTypeBase list \<Rightarrow> string \<Rightarrow> bool" where
  "existsWorkType_loop [] nm = False"
| "existsWorkType_loop (w # ws) nm =
     (if getName w = nm then True else existsWorkType_loop ws nm)"

definition existsWorkType :: "PayrollDepartment \<Rightarrow> string \<Rightarrow> bool" where
  "existsWorkType d nm = existsWorkType_loop (workTypes d) nm"

text \<open>
  What the department writes: the warning on \<open>std::cerr\<close>, the listing on \<open>std::cout\<close>.
  A line of the listing carries the name, the base pay and the final pay.
\<close>

datatype stream_item =
    LongNameWarning
  | ListEmptyNotice
  | ListHeader
  | ListLine string real double_value

definition duplicate_message :: "string \<Rightarrow> string" where
  "duplicate_message nm = ''work type '' @ [CHR 0x27] @ nm @ [CHR 0x27] @ '' already exists''"

text \<open>
  The constructors that a call of \<open>addWorkType\<close> runs, in the order in which it runs them.
  A constructor that throws has run.
\<close>

datatype constructor_call =
    Call_NoBonusStrategy
  | Call_PercentageBonusStrategy real
  | Call_WorkTypeBase string real

text \<open>
  \<open>addWorkType\<close>: the warning, the duplicate check, the choice of the strategy (with the
  department's own test of the upper bound before \<open>PercentageBonusStrategy\<close> is
  constructed), the construction of the work type, and \<open>push_back\<close> as the last statement.
  The result is the exception or \<open>()\<close>, the department after the call, what went to
  \<open>std::cerr\<close>, and the constructors that ran.
\<close>

definition addWorkType_run ::
  "PayrollDepartment \<Rightarrow> string \<Rightarrow> real \<Rightarrow> real \<Rightarrow>
     (PayrollException + unit) \<times> PayrollDepartment \<times> stream_item list \<times> constructor_call list" where
  "addWorkType_run d nm pay bonusPercent =
     (let err = (if length nm > 50 then [LongNameWarning] else []) in
      if existsWorkType d nm
      then (Inl (DuplicateWorkTypeException (duplicate_message nm)), d, err, [])
      else
        case (if bonusPercent = 0 then (Inr NoBonusStrategy, [Call_NoBonusStrategy])
              else if bonusPercent > 100
                   then (Inl (InvalidRateException ''bonus percent cannot exceed 100%''), [])
                   else (make_PercentageBonusStrategy bonusPercent,
                         [Call_PercentageBonusStrategy bonusPercent])) of
          (Inl e, calls) \<Rightarrow> (Inl e, d, err, calls)
        | (Inr strategy, calls) \<Rightarrow>
            (case make_WorkTypeBase nm pay (Some strategy) of
               Inl e \<Rightarrow> (Inl e, d, err, calls @ [Call_WorkTypeBase nm pay])
             | Inr wt \<Rightarrow>
                 (Inr (), d\<lparr>workTypes := workTypes d @ [wt]\<rparr>, err,
                  calls @ [Call_WorkTypeBase nm pay])))"

text \<open>What the caller of \<open>addWorkType\<close> sees: the outcome, the department and the warning.\<close>

definition addWorkType ::
  "PayrollDepartment \<Rightarrow> string \<Rightarrow> real \<Rightarrow> real \<Rightarrow>
     (PayrollException + unit) \<times> PayrollDepartment \<times> stream_item list" where
  "addWorkType d nm pay bonusPercent =
     (case addWorkType_run d nm pay bonusPercent of (r, d', err, calls) \<Rightarrow> (r, d', err))"

text \<open>
  The summing loop of \<open>calculateAveragePay\<close>, with the running sum: every \<open>sum +=\<close> is an
  addition of doubles.
\<close>

fun sum_loop :: "WorkTypeBase list \<Rightarrow> double_value \<Rightarrow> double_value" where
  "sum_loop [] s = s"
| "sum_loop (w # ws) s = sum_loop ws (fadd s (getFinalPay w))"

text \<open>
  \<open>calculateAveragePay\<close>: the sum starts at \<open>0.0\<close> and is divided by the size converted to
  \<open>double\<close>. A size is below \<open>2 ^ 64\<close>, so its conversion is a number.
\<close>

definition calculateAveragePay ::
  "PayrollDepartment \<Rightarrow> (PayrollException + double_value) \<times> PayrollDepartment" where
  "calculateAveragePay d =
     (if workTypes d = []
      then (Inl (EmptyWorkListException ''cannot calculate average''), d)
      else (Inr (fdiv (sum_loop (workTypes d) (Finite 0))
                   (round_nearest (real (length (workTypes d))))), d))"

text \<open>The printing loop of \<open>printAll\<close>: one line for each work type, in the vector's order.\<close>

fun print_loop :: "WorkTypeBase list \<Rightarrow> stream_item list" where
  "print_loop [] = []"
| "print_loop (w # ws) = ListLine (getName w) (getBasePay w) (getFinalPay w) # print_loop ws"

definition printAll ::
  "PayrollDepartment \<Rightarrow> (PayrollException + unit) \<times> PayrollDepartment \<times> stream_item list" where
  "printAll d =
     (if workTypes d = [] then (Inr (), d, [ListEmptyNotice])
      else (Inr (), d, ListHeader # print_loop (workTypes d)))"

text \<open>
  One turn of the menu loop of \<open>main\<close> once the input is read: the call of the chosen
  method, with a thrown \<open>PayrollException\<close> caught and reported. Only the department
  after the turn is kept here.
\<close>

datatype request =
    AddWorkType string real real
  | PrintAll
  | CalculateAveragePay

fun serve :: "PayrollDepartment \<Rightarrow> request \<Rightarrow> PayrollDepartment" where
  "serve d (AddWorkType nm pay bonusPercent) = fst (snd (addWorkType d nm pay bonusPercent))"
| "serve d PrintAll = fst (snd (printAll d))"
| "serve d CalculateAveragePay = snd (calculateAveragePay d)"

fun serve_all :: "PayrollDepartment \<Rightarrow> request list \<Rightarrow> PayrollDepartment" where
  "serve_all d [] = d"
| "serve_all d (r # rs) = serve_all (serve d r) rs"

text \<open>The triples of a listing: the lines, without the header and the notice.\<close>

fun listed :: "stream_item list \<Rightarrow> (string \<times> real \<times> double_value) list" where
  "listed [] = []"
| "listed (ListLine nm pay final # xs) = (nm, pay, final) # listed xs"
| "listed (x # xs) = listed xs"

section \<open>Properties\<close>

subsection \<open>Rounding: the exponent, fixed points and evaluation\<close>

lemma powi_1022: "(2::real) powi (- 1022) * 2 ^ 1022 = 1"
  by (simp add: power_int_minus)

lemma powi_diff_nat: "0 \<le> k \<Longrightarrow> (2::real) powi (k - int n) = 2 ^ nat k / 2 ^ n"
  by (simp add: power_int_diff power_int_nonneg_exp)

lemma exponent_small: "a < 2 powi (- 1022) \<Longrightarrow> exponent a = - 1022"
  by (simp add: exponent_def)

lemma exponent_bounds:
  assumes a: "2 powi (- 1022) \<le> a"
  shows "2 powi (exponent a) \<le> a" and "a < 2 powi (exponent a + 1)" and "- 1022 \<le> exponent a"
proof -
  define N where "N = \<lfloor>a * 2 ^ 1022\<rfloor>"
  define k where "k = bitlen N - 1"
  have "2 powi (- 1022) * 2 ^ 1022 \<le> a * (2 ^ 1022 :: real)"
    using a by (intro mult_right_mono) simp_all
  then have one: "1 \<le> a * 2 ^ 1022"
    by (simp only: powi_1022)
  then have N: "0 < N"
    unfolding N_def by linarith
  from bitlen_bounds [OF N] have lo: "2 ^ nat k \<le> N" and hi: "N < 2 ^ nat (k + 1)"
    by (simp_all add: k_def add.commute)
  have k: "0 \<le> k"
    using N bitlen_nonneg [of N] bitlen_eq_zero_iff [of N] by (simp add: k_def)
  have e: "exponent a = k - 1022"
    using a by (simp add: exponent_def N_def k_def)
  have "real_of_int (2 ^ nat k) \<le> real_of_int N"
    using lo by linarith
  also have "\<dots> \<le> a * 2 ^ 1022"
    unfolding N_def by linarith
  finally have "2 ^ nat k \<le> a * (2 ^ 1022 :: real)"
    by simp
  then have "2 ^ nat k / 2 ^ 1022 \<le> a"
    by (simp add: field_simps)
  moreover have "(2::real) powi (k - 1022) = 2 ^ nat k / 2 ^ 1022"
    using powi_diff_nat [of k 1022] k by simp
  ultimately show "2 powi (exponent a) \<le> a"
    by (simp add: e)
  have "a * 2 ^ 1022 < real_of_int N + 1"
    unfolding N_def by linarith
  also have "\<dots> \<le> real_of_int (2 ^ nat (k + 1))"
    using hi by linarith
  finally have "a * (2 ^ 1022 :: real) < 2 ^ nat (k + 1)"
    by simp
  then have "a < 2 ^ nat (k + 1) / 2 ^ 1022"
    by (simp add: field_simps)
  moreover have "(2::real) powi (k + 1 - 1022) = 2 ^ nat (k + 1) / 2 ^ 1022"
    using powi_diff_nat [of "k + 1" 1022] k by simp
  ultimately show "a < 2 powi (exponent a + 1)"
    by (simp add: e algebra_simps)
  show "- 1022 \<le> exponent a"
    using k by (simp add: e)
qed

lemma powi_two_less_iff: "(2::real) powi m < 2 powi n \<longleftrightarrow> m < n"
proof
  assume less: "(2::real) powi m < 2 powi n"
  show "m < n"
  proof (rule ccontr)
    assume "\<not> m < n"
    then have "(2::real) powi n \<le> 2 powi m"
      by (intro power_int_increasing) simp_all
    with less show False
      by linarith
  qed
next
  assume "m < n"
  then show "(2::real) powi m < 2 powi n"
    by (intro power_int_strict_increasing) simp_all
qed

lemma exponent_eqI:
  assumes lo: "2 powi e \<le> a" and hi: "a < 2 powi (e + 1)" and e: "- 1022 \<le> e"
  shows "exponent a = e"
proof -
  have "(2::real) powi (- 1022) \<le> 2 powi e"
    using e by (intro power_int_increasing) simp_all
  with lo have a: "2 powi (- 1022) \<le> a"
    by linarith
  note b = exponent_bounds [OF a]
  from b(1) hi have "(2::real) powi (exponent a) < 2 powi (e + 1)"
    by linarith
  then have "exponent a < e + 1"
    by (simp only: powi_two_less_iff)
  moreover from lo b(2) have "(2::real) powi e < 2 powi (exponent a + 1)"
    by linarith
  then have "e < exponent a + 1"
    by (simp only: powi_two_less_iff)
  ultimately show ?thesis
    by linarith
qed

lemma round_half_even_of_int [simp]: "round_half_even (of_int m) = m"
  by (simp add: round_half_even_def)

lemma round_half_even_lower: "of_int A \<le> y \<Longrightarrow> A \<le> round_half_even y"
  by (auto simp: round_half_even_def Let_def le_floor_iff) (simp add: le_floor_iff add.commute add_increasing)+

lemma round_half_even_upper: "y \<le> of_int B \<Longrightarrow> round_half_even y \<le> B"
proof -
  assume y: "y \<le> of_int B"
  show ?thesis
  proof (cases "y = of_int B")
    case True
    then show ?thesis by simp
  next
    case False
    with y have "y < of_int B" by simp
    then have "\<lfloor>y\<rfloor> < B" by (simp add: floor_less_iff)
    then have "\<lfloor>y\<rfloor> + 1 \<le> B" by simp
    moreover have "round_half_even y \<le> \<lfloor>y\<rfloor> + 1"
      by (simp add: round_half_even_def Let_def)
    ultimately show ?thesis by linarith
  qed
qed

lemma round_half_even_abs_upper: "\<bar>y\<bar> \<le> of_int B \<Longrightarrow> \<bar>round_half_even y\<bar> \<le> B"
proof -
  assume "\<bar>y\<bar> \<le> of_int B"
  then have lo: "of_int (- B) \<le> y" and hi: "y \<le> of_int B"
    by linarith+
  from lo have "- B \<le> round_half_even y"
    by (rule round_half_even_lower)
  moreover from hi have "round_half_even y \<le> B"
    by (rule round_half_even_upper)
  ultimately show ?thesis
    by linarith
qed

lemma round_half_even_abs_lower: "of_int A \<le> \<bar>y\<bar> \<Longrightarrow> A \<le> \<bar>round_half_even y\<bar>"
proof -
  assume A: "of_int A \<le> \<bar>y\<bar>"
  show ?thesis
  proof (cases "0 \<le> y")
    case True
    with A have "of_int A \<le> y" by simp
    then have "A \<le> round_half_even y" by (rule round_half_even_lower)
    then show ?thesis by linarith
  next
    case False
    with A have "y \<le> of_int (- A)" by simp
    then have "round_half_even y \<le> - A" by (rule round_half_even_upper)
    then show ?thesis by linarith
  qed
qed

lemma powi_two_pos [simp]: "0 < (2::real) powi n"
  by (simp add: zero_less_power_int)

lemma powi_split52: "(2::real) powi e = 2 ^ 52 * 2 powi (e - 52)"
proof -
  have "e = 52 + (e - 52)"
    by simp
  then have "(2::real) powi e = 2 powi (52 + (e - 52))"
    by (rule arg_cong)
  also have "\<dots> = 2 powi 52 * 2 powi (e - 52)"
    by (rule power_int_add) simp
  finally show ?thesis
    by simp
qed

lemma powi_split53: "(2::real) powi (e + 1) = 2 ^ 53 * 2 powi (e - 52)"
proof -
  have "e + 1 = 53 + (e - 52)"
    by simp
  then have "(2::real) powi (e + 1) = 2 powi (53 + (e - 52))"
    by (rule arg_cong)
  also have "\<dots> = 2 powi 53 * 2 powi (e - 52)"
    by (rule power_int_add) simp
  finally show ?thesis
    by simp
qed

lemma round_nearest_fixed:
  assumes "r = of_int j * 2 powi (exponent \<bar>r\<bar> - 52)"
  shows "round_nearest r = r"
proof -
  define q :: real where "q = 2 powi (exponent \<bar>r\<bar> - 52)"
  have q: "0 < q" by (simp add: q_def)
  have rq: "r = of_int j * q"
    unfolding q_def by (rule assms)
  have "of_int j * q / q = (of_int j :: real)"
    using q by simp
  then have "r / q = of_int j"
    by (simp only: rq [symmetric])
  then have "of_int (round_half_even (r / q)) * q = r"
    by (simp only: round_half_even_of_int rq [symmetric])
  then show ?thesis
    by (simp only: round_nearest_def q_def Let_def)
qed

lemma round_nearest_idem: "round_nearest (round_nearest x) = round_nearest x"
proof -
  define e where "e = exponent \<bar>x\<bar>"
  define q :: real where "q = 2 powi (e - 52)"
  define m where "m = round_half_even (x / q)"
  define r where "r = of_int m * q"
  have q: "0 < q" by (simp add: q_def)
  have r: "round_nearest x = r"
    by (simp add: round_nearest_def Let_def r_def m_def q_def e_def)
  have absr: "\<bar>r\<bar> = of_int \<bar>m\<bar> * q"
    using q by (simp add: r_def abs_mult)
  have absx: "\<bar>x / q\<bar> = \<bar>x\<bar> / q"
    using q by simp
  have "round_nearest r = r"
  proof (cases "\<bar>x\<bar> < 2 powi (- 1022)")
    case True
    then have e: "e = - 1022"
      by (simp add: e_def exponent_small)
    have "\<bar>x\<bar> < 2 ^ 52 * q"
      using True powi_split52 [of "- 1022"] by (simp add: q_def e)
    then have "\<bar>x / q\<bar> \<le> of_int (2 ^ 52)"
      using q by (simp add: absx field_simps)
    then have "\<bar>m\<bar> \<le> 2 ^ 52"
      unfolding m_def by (rule round_half_even_abs_upper)
    then have "of_int \<bar>m\<bar> * q \<le> of_int (2 ^ 52) * q"
      using q by (intro mult_right_mono) simp_all
    then have le: "\<bar>r\<bar> \<le> 2 powi (- 1022)"
      using powi_split52 [of "- 1022"] by (simp add: absr q_def e)
    have "exponent \<bar>r\<bar> = - 1022"
    proof (cases "\<bar>r\<bar> < 2 powi (- 1022)")
      case True
      then show ?thesis by (rule exponent_small)
    next
      case False
      with le have "\<bar>r\<bar> = 2 powi (- 1022)" by simp
      moreover have "(2::real) powi (- 1022) < 2 powi (- 1022 + 1)"
        by (subst powi_two_less_iff) simp
      ultimately show ?thesis
        by (intro exponent_eqI) simp_all
    qed
    then have "r = of_int m * 2 powi (exponent \<bar>r\<bar> - 52)"
      by (simp add: r_def q_def e)
    then show ?thesis by (rule round_nearest_fixed)
  next
    case False
    then have a: "2 powi (- 1022) \<le> \<bar>x\<bar>" by simp
    note b = exponent_bounds [OF a, folded e_def]
    have "2 ^ 52 * q \<le> \<bar>x\<bar>"
      using b(1) powi_split52 [of e] by (simp add: q_def)
    then have "of_int (2 ^ 52) \<le> \<bar>x / q\<bar>"
      using q by (simp add: absx field_simps)
    then have mlo: "2 ^ 52 \<le> \<bar>m\<bar>"
      unfolding m_def by (rule round_half_even_abs_lower)
    have "\<bar>x\<bar> < 2 ^ 53 * q"
      using b(2) powi_split53 [of e] by (simp add: q_def)
    then have "\<bar>x / q\<bar> \<le> of_int (2 ^ 53)"
      using q by (simp add: absx field_simps)
    then have mhi: "\<bar>m\<bar> \<le> 2 ^ 53"
      unfolding m_def by (rule round_half_even_abs_upper)
    have "of_int (2 ^ 52) * q \<le> of_int \<bar>m\<bar> * q"
      using q mlo by (intro mult_right_mono) simp_all
    then have rlo: "2 powi e \<le> \<bar>r\<bar>"
      using powi_split52 [of e] by (simp add: absr q_def)
    show ?thesis
    proof (cases "\<bar>m\<bar> = 2 ^ 53")
      case True
      then have "of_int \<bar>m\<bar> * q = 2 ^ 53 * q"
        by simp
      then have eq: "\<bar>r\<bar> = 2 powi (e + 1)"
        using powi_split53 [of e] by (simp add: absr q_def)
      have "(2::real) powi (e + 1) < 2 powi (e + 1 + 1)"
        by (subst powi_two_less_iff) simp
      with eq have ex: "exponent \<bar>r\<bar> = e + 1"
        using b(3) by (intro exponent_eqI) simp_all
      have "even m"
        using True by (metis even_abs_add_iff even_add even_numeral even_power zero_less_numeral)
      then obtain j where j: "m = 2 * j" by (elim evenE)
      have "(2::real) powi (e + 1 - 52) = 2 * q"
        using power_int_add [of "2::real" 1 "e - 52"] by (simp add: q_def add.commute)
      then have q2: "2 powi (exponent \<bar>r\<bar> - 52) = 2 * q"
        by (simp only: ex)
      have rj: "r = of_int j * (2 * q)"
        by (simp add: r_def j)
      have "r = of_int j * 2 powi (exponent \<bar>r\<bar> - 52)"
        unfolding q2 by (rule rj)
      then show ?thesis by (rule round_nearest_fixed)
    next
      case False
      with mhi have "\<bar>m\<bar> < 2 ^ 53" by simp
      then have "real_of_int \<bar>m\<bar> < 2 ^ 53"
        by (metis of_int_less_iff of_int_numeral of_int_power)
      then have "of_int \<bar>m\<bar> * q < 2 ^ 53 * q"
        using q by (intro mult_strict_right_mono) simp_all
      then have "\<bar>r\<bar> < 2 powi (e + 1)"
        using powi_split53 [of e] by (simp add: absr q_def)
      with rlo b(3) have "exponent \<bar>r\<bar> = e"
        by (intro exponent_eqI) simp_all
      then have "r = of_int m * 2 powi (exponent \<bar>r\<bar> - 52)"
        by (simp add: r_def q_def)
      then show ?thesis by (rule round_nearest_fixed)
    qed
  qed
  then show ?thesis
    by (simp add: r)
qed

lemma rnd_idem: "rnd x = Finite r \<Longrightarrow> rnd r = Finite r"
  by (auto simp: rnd_def round_nearest_idem split: if_splits)

lemma round_nearest_eval:
  "2 powi e \<le> \<bar>x\<bar> \<Longrightarrow> \<bar>x\<bar> < 2 powi (e + 1) \<Longrightarrow> - 1022 \<le> e \<Longrightarrow>
   round_nearest x = of_int (round_half_even (x / 2 powi (e - 52))) * 2 powi (e - 52)"
  by (simp add: round_nearest_def exponent_eqI Let_def)

lemma round_nearest_0 [simp]: "round_nearest 0 = 0"
  by (simp add: round_nearest_def round_half_even_def)

subsection \<open>Doubles stay doubles\<close>

lemma is_double_rnd: "rnd x = Finite v \<Longrightarrow> is_double v"
  unfolding is_double_def by (rule rnd_idem)

lemma round_nearest_1: "round_nearest 1 = 1"
  using round_nearest_eval [of 0 1] by (simp add: round_half_even_def)

lemma fadd_zero: "is_double v \<Longrightarrow> fadd (Finite 0) (Finite v) = Finite v"
  by (simp add: is_double_def)

lemma fdiv_one: "is_double v \<Longrightarrow> fdiv (Finite v) 1 = Finite v"
  by (simp add: is_double_def)

lemma mean_of_one_rnd: "fdiv (fadd (Finite 0) (rnd x)) 1 = rnd x"
proof (cases "rnd x")
  case (Finite v)
  then have "is_double v" by (rule is_double_rnd)
  then show ?thesis by (simp only: Finite fadd_zero fdiv_one)
next
  case NotFinite
  then show ?thesis by simp
qed

lemma mean_of_one_fmul: "fdiv (fadd (Finite 0) (fmul a b)) 1 = fmul a b"
proof (cases a)
  case a: (Finite x)
  show ?thesis
  proof (cases b)
    case (Finite y)
    with a show ?thesis by (simp only: fmul.simps mean_of_one_rnd)
  next
    case NotFinite
    with a show ?thesis by simp
  qed
next
  case NotFinite
  then show ?thesis by simp
qed

lemma mean_of_one:
  "is_double (basePay w) \<Longrightarrow> fdiv (fadd (Finite 0) (getFinalPay w)) 1 = getFinalPay w"
proof (cases "bonusStrategy w")
  case NoBonusStrategy
  assume "is_double (basePay w)"
  with NoBonusStrategy show ?thesis
    by (simp only: getFinalPay_def computePay.simps fadd_zero fdiv_one)
next
  case (PercentageBonusStrategy p)
  then show ?thesis
    by (simp only: getFinalPay_def computePay.simps mean_of_one_fmul)
qed

lemma computePay_exact:
  "is_double (p / 100) \<Longrightarrow> is_double (1 + p / 100) \<Longrightarrow> is_double (pay * (1 + p / 100)) \<Longrightarrow>
   computePay (PercentageBonusStrategy p) pay = Finite (pay * (1 + p / 100))"
  by (simp add: is_double_def)


subsection \<open>Doubles used in the examples\<close>

lemma round_nearest_int:
  assumes n: "\<bar>n\<bar> < 2 ^ 53"
  shows "round_nearest (of_int n) = of_int n"
proof (cases "n = 0")
  case True
  then show ?thesis by simp
next
  case False
  define a :: real where "a = \<bar>of_int n\<bar>"
  define e where "e = exponent a"
  define k where "k = nat (52 - e)"
  from False have "1 \<le> \<bar>n\<bar>"
    by linarith
  then have "real_of_int 1 \<le> real_of_int \<bar>n\<bar>"
    by (simp only: of_int_le_iff)
  then have a1: "1 \<le> a"
    by (simp add: a_def)
  from n have "real_of_int \<bar>n\<bar> < real_of_int (2 ^ 53)"
    by (simp only: of_int_less_iff)
  then have a53: "a < 2 powi 53"
    by (simp add: a_def)
  have "(2::real) powi (- 1022) \<le> 2 powi 0"
    by (intro power_int_increasing) simp_all
  with a1 have lo: "2 powi (- 1022) \<le> a"
    by simp
  note b = exponent_bounds [OF lo, folded e_def]
  from a1 b(2) have "(2::real) powi 0 < 2 powi (e + 1)"
    by simp
  then have e0: "0 \<le> e"
    by (simp only: powi_two_less_iff)
  from b(1) a53 have "(2::real) powi e < 2 powi 53"
    by linarith
  then have e52: "e \<le> 52"
    by (simp only: powi_two_less_iff)
  have "(2::real) powi (e - 52) * 2 powi (int k) = 2 powi (e - 52 + int k)"
    by (rule power_int_add [symmetric]) simp
  also have "e - 52 + int k = 0"
    using e52 by (simp add: k_def)
  finally have one: "(2::real) powi (e - 52) * 2 ^ k = 1"
    by simp
  have "real_of_int (n * 2 ^ k) * 2 powi (e - 52) = of_int n * (2 powi (e - 52) * 2 ^ k)"
    by simp
  also have "\<dots> = of_int n"
    by (simp only: one mult_1_right)
  finally have "real_of_int n = of_int (n * 2 ^ k) * 2 powi (exponent \<bar>of_int n\<bar> - 52)"
    by (simp only: e_def a_def)
  then show ?thesis
    by (rule round_nearest_fixed)
qed

lemma is_double_int: "\<bar>n\<bar> < 2 ^ 53 \<Longrightarrow> is_double (of_int n)"
proof -
  assume n: "\<bar>n\<bar> < 2 ^ 53"
  then have "\<bar>n\<bar> < 2 ^ 1024"
    by simp
  then have "real_of_int \<bar>n\<bar> < real_of_int (2 ^ 1024)"
    by (simp only: of_int_less_iff)
  then have "\<bar>real_of_int n\<bar> < 2 ^ 1024"
    by simp
  with round_nearest_int [OF n] show ?thesis
    by (simp add: is_double_def rnd_def)
qed

lemma is_double_fractions:
  "is_double (1 / 2)" "is_double (3 / 2)" "is_double (1 / 4)" "is_double (5 / 4)"
  using round_nearest_eval [of "- 1" "1 / 2"] round_nearest_eval [of 0 "3 / 2"]
    round_nearest_eval [of "- 2" "1 / 4"] round_nearest_eval [of 0 "5 / 4"]
  by (simp_all add: is_double_def rnd_def round_half_even_def power_int_minus)

lemma is_double_numbers:
  "is_double 1" "is_double 2" "is_double 4" "is_double 100" "is_double 120" "is_double 150"
  "is_double 200" "is_double 300" "is_double 400"
  using is_double_int [of 1] is_double_int [of 2] is_double_int [of 4] is_double_int [of 100]
    is_double_int [of 120] is_double_int [of 150] is_double_int [of 200] is_double_int [of 300]
    is_double_int [of 400]
  by simp_all

lemma round_nearest_sizes: "round_nearest 2 = 2" "round_nearest 3 = 3"
  using round_nearest_int [of 2] round_nearest_int [of 3] by simp_all

lemma computePay_examples:
  "computePay (PercentageBonusStrategy 50) 200 = Finite 300"
  "computePay (PercentageBonusStrategy 25) 120 = Finite 150"
  using computePay_exact [of 50 200] computePay_exact [of 25 120]
    is_double_fractions is_double_numbers
  by simp_all


subsection \<open>Helper facts about the constructors and the loops\<close>

lemma existsWorkType_loop_iff: "existsWorkType_loop ws nm \<longleftrightarrow> nm \<in> set (map getName ws)"
  by (induction ws) auto

lemma sum_loop_eq: "sum_loop ws s = foldl fadd s (map getFinalPay ws)"
  by (induction ws arbitrary: s) auto

lemma print_loop_eq:
  "print_loop ws = map (\<lambda>w. ListLine (getName w) (getBasePay w) (getFinalPay w)) ws"
  by (induction ws) auto

lemma listed_print_loop:
  "listed (print_loop ws) = map (\<lambda>w. (getName w, getBasePay w, getFinalPay w)) ws"
  by (induction ws) auto

subsection \<open>The three outcomes of \<open>addWorkType\<close>\<close>

lemma addWorkType_duplicate:
  "existsWorkType d nm \<Longrightarrow>
   addWorkType d nm pay bonusPercent =
     (Inl (DuplicateWorkTypeException (duplicate_message nm)), d,
      if length nm > 50 then [LongNameWarning] else [])"
  by (simp add: addWorkType_def addWorkType_run_def)

lemma addWorkType_invalid:
  "\<not> existsWorkType d nm \<Longrightarrow>
   nm = [] \<or> pay \<le> 0 \<or> pay > 1000000 \<or> bonusPercent < 0 \<or> bonusPercent > 100 \<Longrightarrow>
   \<exists>msg. addWorkType d nm pay bonusPercent =
     (Inl (InvalidRateException msg), d, if length nm > 50 then [LongNameWarning] else [])"
  by (auto simp: addWorkType_def addWorkType_run_def make_PercentageBonusStrategy_def
      make_WorkTypeBase_def)

lemma addWorkType_ok:
  "\<not> existsWorkType d nm \<Longrightarrow> nm \<noteq> [] \<Longrightarrow> 0 < pay \<Longrightarrow> pay \<le> 1000000 \<Longrightarrow>
   0 \<le> bonusPercent \<Longrightarrow> bonusPercent \<le> 100 \<Longrightarrow>
   addWorkType d nm pay bonusPercent =
     (Inr (),
      d\<lparr>workTypes := workTypes d @
         [\<lparr>name = nm, basePay = pay,
           bonusStrategy = (if bonusPercent = 0 then NoBonusStrategy
                            else PercentageBonusStrategy bonusPercent)\<rparr>]\<rparr>,
      if length nm > 50 then [LongNameWarning] else [])"
  by (auto simp: addWorkType_def addWorkType_run_def make_PercentageBonusStrategy_def
      make_WorkTypeBase_def)

lemma addWorkType_success_iff:
  "fst (addWorkType d nm pay bonusPercent) = Inr () \<longleftrightarrow>
     \<not> existsWorkType d nm \<and> nm \<noteq> [] \<and> 0 < pay \<and> pay \<le> 1000000 \<and>
     0 \<le> bonusPercent \<and> bonusPercent \<le> 100"
proof (cases "existsWorkType d nm")
  case True
  then show ?thesis by (simp add: addWorkType_duplicate)
next
  case False
  show ?thesis
  proof (cases "nm = [] \<or> pay \<le> 0 \<or> pay > 1000000 \<or> bonusPercent < 0 \<or> bonusPercent > 100")
    case True
    from addWorkType_invalid [OF False True] True show ?thesis by auto
  next
    case ok: False
    then have "fst (addWorkType d nm pay bonusPercent) = Inr ()"
      using False by (simp add: addWorkType_ok)
    with ok False show ?thesis by auto
  qed
qed

lemma addWorkType_failure_unchanged:
  "fst (addWorkType d nm pay bonusPercent) \<noteq> Inr () \<Longrightarrow>
   fst (snd (addWorkType d nm pay bonusPercent)) = d"
  by (auto simp: addWorkType_def addWorkType_run_def split: sum.splits prod.splits)

lemma addWorkType_failure_kind:
  assumes "fst (addWorkType d nm pay bonusPercent) \<noteq> Inr ()"
  shows "if existsWorkType d nm
         then isDuplicateWorkType (fst (addWorkType d nm pay bonusPercent))
         else isInvalidRate (fst (addWorkType d nm pay bonusPercent))"
proof (cases "existsWorkType d nm")
  case True
  then show ?thesis
    by (simp add: addWorkType_duplicate isDuplicateWorkType_def)
next
  case False
  with assms have "nm = [] \<or> pay \<le> 0 \<or> pay > 1000000 \<or> bonusPercent < 0 \<or> bonusPercent > 100"
    by (auto simp: addWorkType_success_iff)
  from addWorkType_invalid [OF False this] False show ?thesis
    by (auto simp: isInvalidRate_def)
qed

lemma addWorkType_success_appends:
  "fst (addWorkType d nm pay bonusPercent) = Inr () \<Longrightarrow>
   workTypes (fst (snd (addWorkType d nm pay bonusPercent))) =
     workTypes d @
       [\<lparr>name = nm, basePay = pay,
         bonusStrategy = (if bonusPercent = 0 then NoBonusStrategy
                          else PercentageBonusStrategy bonusPercent)\<rparr>]"
  by (simp add: addWorkType_success_iff addWorkType_ok)

lemma addWorkType_warning:
  "snd (snd (addWorkType d nm pay bonusPercent)) =
     (if length nm > 50 then [LongNameWarning] else [])"
  by (auto simp: addWorkType_def addWorkType_run_def split: sum.splits prod.splits)

lemma existsWorkType_iff: "existsWorkType d nm \<longleftrightarrow> nm \<in> set (map getName (workTypes d))"
  by (simp add: existsWorkType_def existsWorkType_loop_iff)

lemma printAll_state: "fst (snd (printAll d)) = d"
  by (simp add: printAll_def)

lemma calculateAveragePay_state: "snd (calculateAveragePay d) = d"
  by (simp add: calculateAveragePay_def)

lemma serve_add_cases:
  "workTypes (serve d (AddWorkType nm pay bonusPercent)) = workTypes d \<or>
   (\<not> existsWorkType d nm \<and> nm \<noteq> [] \<and>
    (\<exists>w. getName w = nm \<and> workTypes (serve d (AddWorkType nm pay bonusPercent)) = workTypes d @ [w]))"
proof (cases "fst (addWorkType d nm pay bonusPercent) = Inr ()")
  case True
  from addWorkType_success_appends [OF True] True show ?thesis
    by (simp add: addWorkType_success_iff getName_def)
next
  case False
  then show ?thesis by (simp add: addWorkType_failure_unchanged)
qed

lemma serve_distinct:
  "distinct (map getName (workTypes d)) \<Longrightarrow> distinct (map getName (workTypes (serve d r)))"
proof (cases r)
  case (AddWorkType nm pay bonusPercent)
  assume "distinct (map getName (workTypes d))"
  with serve_add_cases [of d nm pay bonusPercent] AddWorkType show ?thesis
    by (auto simp: existsWorkType_iff)
qed (simp_all add: printAll_state calculateAveragePay_state)

lemma serve_all_distinct:
  "distinct (map getName (workTypes d)) \<Longrightarrow> distinct (map getName (workTypes (serve_all d rs)))"
  by (induction rs arbitrary: d) (simp_all add: serve_distinct)

lemma serve_nonempty_names:
  "[] \<notin> set (map getName (workTypes d)) \<Longrightarrow> [] \<notin> set (map getName (workTypes (serve d r)))"
proof (cases r)
  case (AddWorkType nm pay bonusPercent)
  assume "[] \<notin> set (map getName (workTypes d))"
  with serve_add_cases [of d nm pay bonusPercent] AddWorkType show ?thesis
    by auto
qed (simp_all add: printAll_state calculateAveragePay_state)

lemma serve_all_nonempty_names:
  "[] \<notin> set (map getName (workTypes d)) \<Longrightarrow>
   [] \<notin> set (map getName (workTypes (serve_all d rs)))"
proof (induction rs arbitrary: d)
  case Nil
  then show ?case by simp
next
  case (Cons r rs)
  from Cons.prems have "[] \<notin> set (map getName (workTypes (serve d r)))"
    by (rule serve_nonempty_names)
  then have "[] \<notin> set (map getName (workTypes (serve_all (serve d r) rs)))"
    by (rule Cons.IH)
  then show ?case by simp
qed

lemma serve_extends:
  "take (length (workTypes d)) (workTypes (serve d r)) = workTypes d"
proof (cases r)
  case (AddWorkType nm pay bonusPercent)
  with serve_add_cases [of d nm pay bonusPercent] show ?thesis
    by auto
qed (simp_all add: printAll_state calculateAveragePay_state)

lemma serve_length: "length (workTypes d) \<le> length (workTypes (serve d r))"
proof (cases r)
  case (AddWorkType nm pay bonusPercent)
  with serve_add_cases [of d nm pay bonusPercent] show ?thesis
    by auto
qed (simp_all add: printAll_state calculateAveragePay_state)

lemma serve_all_length: "length (workTypes d) \<le> length (workTypes (serve_all d rs))"
proof (induction rs arbitrary: d)
  case Nil
  show ?case by simp
next
  case (Cons r rs)
  have "length (workTypes d) \<le> length (workTypes (serve d r))"
    by (rule serve_length)
  also have "\<dots> \<le> length (workTypes (serve_all (serve d r) rs))"
    by (rule Cons.IH)
  finally show ?case by simp
qed

lemma serve_all_extends:
  "take (length (workTypes d)) (workTypes (serve_all d rs)) = workTypes d"
proof (induction rs arbitrary: d)
  case Nil
  show ?case by simp
next
  case (Cons r rs)
  let ?d1 = "serve d r"
  have le: "length (workTypes d) \<le> length (workTypes ?d1)"
    by (rule serve_length)
  have "take (length (workTypes d)) (workTypes (serve_all ?d1 rs)) =
        take (length (workTypes d)) (take (length (workTypes ?d1)) (workTypes (serve_all ?d1 rs)))"
    using le by (simp add: min_def)
  also have "\<dots> = take (length (workTypes d)) (workTypes ?d1)"
    by (simp only: Cons.IH)
  also have "\<dots> = workTypes d"
    by (rule serve_extends)
  finally show ?case by simp
qed

lemma make_WorkTypeBase_invalid_iff:
  "isInvalidRate (make_WorkTypeBase nm pay strategy) \<longleftrightarrow>
     nm = [] \<or> pay \<le> 0 \<or> pay > 1000000 \<or> strategy = None"
  by (auto simp: make_WorkTypeBase_def isInvalidRate_def split: option.splits)

lemma make_WorkTypeBase_valid:
  "nm \<noteq> [] \<Longrightarrow> 0 < pay \<Longrightarrow> pay \<le> 1000000 \<Longrightarrow>
   make_WorkTypeBase nm pay (Some s) = Inr \<lparr>name = nm, basePay = pay, bonusStrategy = s\<rparr>"
  by (simp add: make_WorkTypeBase_def)

lemma addWorkType_invalid_iff:
  assumes fresh: "\<not> existsWorkType d nm"
  shows "isInvalidRate (fst (addWorkType d nm pay bonusPercent)) \<longleftrightarrow>
     nm = [] \<or> pay \<le> 0 \<or> pay > 1000000 \<or> bonusPercent < 0 \<or> bonusPercent > 100"
proof (cases "fst (addWorkType d nm pay bonusPercent) = Inr ()")
  case True
  then have "\<not> isInvalidRate (fst (addWorkType d nm pay bonusPercent))"
    by (simp add: isInvalidRate_def)
  moreover from True have "nm \<noteq> [] \<and> 0 < pay \<and> pay \<le> 1000000 \<and> 0 \<le> bonusPercent \<and> bonusPercent \<le> 100"
    by (simp add: addWorkType_success_iff)
  ultimately show ?thesis
    by auto
next
  case False
  from addWorkType_failure_kind [OF False] fresh
  have "isInvalidRate (fst (addWorkType d nm pay bonusPercent))"
    by simp
  moreover from False fresh
  have "nm = [] \<or> pay \<le> 0 \<or> pay > 1000000 \<or> bonusPercent < 0 \<or> bonusPercent > 100"
    by (auto simp: addWorkType_success_iff)
  ultimately show ?thesis
    by simp
qed

subsection \<open>Definitions unfolded when a concrete call is evaluated\<close>

lemmas run_defs =
  addWorkType_def addWorkType_run_def existsWorkType_def new_PayrollDepartment_def
  make_PercentageBonusStrategy_def make_WorkTypeBase_def
  calculateAveragePay_def printAll_def getName_def getBasePay_def getFinalPay_def
  isInvalidRate_def isDuplicateWorkType_def isEmptyWorkList_def duplicate_message_def

subsection \<open>Pay with bonus of a stored work type\<close>

text \<open>
  Claim C1, as the code has it. After every successful
  \<open>addWorkType(name, basePay, bonusPercent)\<close> the entry appended last has the given name
  and base pay. With \<open>bonusPercent = 0\<close> it holds the no-bonus strategy and its final pay
  is the base pay itself. Otherwise \<open>bonusPercent\<close> is in \<open>(0, 100]\<close>, the entry holds the
  percentage strategy with that percent, and its final pay is the value of the expression
  \<open>basePay * (1.0 + bonusPercent / 100.0)\<close> in double arithmetic: the quotient, the sum and
  the product are each rounded to the nearest double. It is the real number
  \<open>basePay * (1 + bonusPercent / 100)\<close> whenever these three results are doubles; the code
  applies no other rounding.
\<close>

theorem addWorkType_finalPay:
  assumes "addWorkType d nm pay bonusPercent = (Inr (), d', err)"
  shows "workTypes d' \<noteq> [] \<and>
         getName (last (workTypes d')) = nm \<and>
         getBasePay (last (workTypes d')) = pay \<and>
         (bonusPercent = 0 \<longrightarrow>
            bonusStrategy (last (workTypes d')) = NoBonusStrategy \<and>
            getFinalPay (last (workTypes d')) = Finite pay) \<and>
         (bonusPercent \<noteq> 0 \<longrightarrow>
            0 < bonusPercent \<and> bonusPercent \<le> 100 \<and>
            bonusStrategy (last (workTypes d')) = PercentageBonusStrategy bonusPercent \<and>
            getFinalPay (last (workTypes d')) =
              fmul (Finite pay) (fadd (Finite 1) (fdiv (Finite bonusPercent) 100))) \<and>
         (is_double (bonusPercent / 100) \<and> is_double (1 + bonusPercent / 100) \<and>
          is_double (pay * (1 + bonusPercent / 100)) \<longrightarrow>
            getFinalPay (last (workTypes d')) = Finite (pay * (1 + bonusPercent / 100)))"
proof -
  from assms have ok: "fst (addWorkType d nm pay bonusPercent) = Inr ()"
    and d': "d' = fst (snd (addWorkType d nm pay bonusPercent))"
    by simp_all
  from ok have range: "0 \<le> bonusPercent \<and> bonusPercent \<le> 100"
    by (simp add: addWorkType_success_iff)
  from addWorkType_success_appends [OF ok] d'
  have stored: "workTypes d' = workTypes d @
          [\<lparr>name = nm, basePay = pay,
            bonusStrategy = (if bonusPercent = 0 then NoBonusStrategy
                             else PercentageBonusStrategy bonusPercent)\<rparr>]"
    by simp
  have exact: "is_double (bonusPercent / 100) \<and> is_double (1 + bonusPercent / 100) \<and>
          is_double (pay * (1 + bonusPercent / 100)) \<longrightarrow>
            getFinalPay (last (workTypes d')) = Finite (pay * (1 + bonusPercent / 100))"
  proof (cases "bonusPercent = 0")
    case True
    with stored show ?thesis
      by (simp add: getFinalPay_def)
  next
    case False
    with stored have fp: "getFinalPay (last (workTypes d')) =
        computePay (PercentageBonusStrategy bonusPercent) pay"
      by (simp add: getFinalPay_def del: computePay.simps)
    show ?thesis
    proof
      assume "is_double (bonusPercent / 100) \<and> is_double (1 + bonusPercent / 100) \<and>
          is_double (pay * (1 + bonusPercent / 100))"
      then have "computePay (PercentageBonusStrategy bonusPercent) pay =
          Finite (pay * (1 + bonusPercent / 100))"
        by (intro computePay_exact) simp_all
      then show "getFinalPay (last (workTypes d')) = Finite (pay * (1 + bonusPercent / 100))"
        by (simp only: fp)
    qed
  qed
  from stored range have rest: "workTypes d' \<noteq> [] \<and>
         getName (last (workTypes d')) = nm \<and>
         getBasePay (last (workTypes d')) = pay \<and>
         (bonusPercent = 0 \<longrightarrow>
            bonusStrategy (last (workTypes d')) = NoBonusStrategy \<and>
            getFinalPay (last (workTypes d')) = Finite pay) \<and>
         (bonusPercent \<noteq> 0 \<longrightarrow>
            0 < bonusPercent \<and> bonusPercent \<le> 100 \<and>
            bonusStrategy (last (workTypes d')) = PercentageBonusStrategy bonusPercent \<and>
            getFinalPay (last (workTypes d')) =
              fmul (Finite pay) (fadd (Finite 1) (fdiv (Finite bonusPercent) 100)))"
    by (simp add: getName_def getBasePay_def getFinalPay_def)
  from rest exact show ?thesis
    by blast
qed

theorem addWorkType_finalPay_witness:
  "addWorkType new_PayrollDepartment ''night shift'' 200 50 =
     (Inr (),
      \<lparr>workTypes = [\<lparr>name = ''night shift'', basePay = 200,
                     bonusStrategy = PercentageBonusStrategy 50\<rparr>]\<rparr>, []) \<and>
   is_double (50 / 100) \<and> is_double (1 + 50 / 100) \<and> is_double (200 * (1 + 50 / 100)) \<and>
   getFinalPay \<lparr>name = ''night shift'', basePay = 200,
                bonusStrategy = PercentageBonusStrategy 50\<rparr> = Finite 300 \<and>
   addWorkType new_PayrollDepartment ''day shift'' 100 0 =
     (Inr (),
      \<lparr>workTypes = [\<lparr>name = ''day shift'', basePay = 100,
                     bonusStrategy = NoBonusStrategy\<rparr>]\<rparr>, []) \<and>
   getFinalPay \<lparr>name = ''day shift'', basePay = 100, bonusStrategy = NoBonusStrategy\<rparr> =
     Finite 100"
proof -
  have a: "addWorkType new_PayrollDepartment ''night shift'' 200 50 =
     (Inr (),
      \<lparr>workTypes = [\<lparr>name = ''night shift'', basePay = 200,
                     bonusStrategy = PercentageBonusStrategy 50\<rparr>]\<rparr>, [])"
    by (simp add: run_defs)
  have b: "addWorkType new_PayrollDepartment ''day shift'' 100 0 =
     (Inr (),
      \<lparr>workTypes = [\<lparr>name = ''day shift'', basePay = 100,
                     bonusStrategy = NoBonusStrategy\<rparr>]\<rparr>, [])"
    by (simp add: run_defs)
  have q: "is_double (50 / 100)"
    using round_nearest_eval [of "- 1" "1 / 2"]
    by (simp add: is_double_def rnd_def round_half_even_def power_int_minus)
  have s: "is_double (1 + 50 / 100)"
    using round_nearest_eval [of 0 "3 / 2"]
    by (simp add: is_double_def rnd_def round_half_even_def power_int_minus)
  have p: "is_double (200 * (1 + 50 / 100))"
    using round_nearest_eval [of 8 300]
    by (simp add: is_double_def rnd_def round_half_even_def power_int_minus)
  from addWorkType_finalPay [OF a] addWorkType_finalPay [OF b] a b q s p show ?thesis
    by (simp add: is_double_def)
qed

text \<open>
  The claim as the specification states it, with the final pay equal to the real number
  \<open>basePay * (1 + bonusPercent / 100)\<close>, fails for a base pay of 100 with 10 percent: the
  quotient \<open>10.0 / 100.0\<close> is not a double, and the final pay is the double next above 110.
\<close>

theorem addWorkType_finalPay_counterexample:
  "fst (addWorkType new_PayrollDepartment ''welding'' 100 10) = Inr () \<and>
   getFinalPay (last (workTypes (fst (snd
     (addWorkType new_PayrollDepartment ''welding'' 100 10))))) = Finite (110 + 1 / 2 ^ 46) \<and>
   Finite (110 + 1 / 2 ^ 46) \<noteq> Finite (100 * (1 + 10 / 100))"
proof -
  have q: "fdiv (Finite 10) 100 = Finite (7205759403792794 / 2 ^ 56)"
    using round_nearest_eval [of "- 4" "1 / 10"]
    by (simp add: rnd_def round_half_even_def power_int_minus)
  have s: "fadd (Finite 1) (Finite (7205759403792794 / 2 ^ 56)) =
      Finite (4953959590107546 / 2 ^ 52)"
    using round_nearest_eval [of 0 "1 + 7205759403792794 / 2 ^ 56"]
    by (simp add: rnd_def round_half_even_def power_int_minus)
  have p: "fmul (Finite 100) (Finite (4953959590107546 / 2 ^ 52)) = Finite (110 + 1 / 2 ^ 46)"
    using round_nearest_eval [of 6 "100 * (4953959590107546 / 2 ^ 52)"]
    by (simp add: rnd_def round_half_even_def power_int_minus)
  have pay: "computePay (PercentageBonusStrategy 10) 100 = Finite (110 + 1 / 2 ^ 46)"
    by (simp only: computePay.simps q s p)
  have run: "addWorkType new_PayrollDepartment ''welding'' 100 10 =
     (Inr (),
      \<lparr>workTypes = [\<lparr>name = ''welding'', basePay = 100,
                     bonusStrategy = PercentageBonusStrategy 10\<rparr>]\<rparr>, [])"
    by (simp add: run_defs)
  have "getFinalPay \<lparr>name = ''welding'', basePay = 100,
      bonusStrategy = PercentageBonusStrategy 10\<rparr> = Finite (110 + 1 / 2 ^ 46)"
    using pay by (simp only: getFinalPay_def WorkTypeBase.simps)
  with run show ?thesis
    by simp
qed

subsection \<open>The average pay\<close>

text \<open>
  Claim C2, as the code has it. \<open>calculateAveragePay\<close> throws \<open>EmptyWorkListException\<close>
  exactly when the department holds no work type. Otherwise it returns the running sum of
  the final pays, started at 0 and rounded to the nearest double at every addition,
  divided by the number of entries with the quotient rounded to the nearest double; the
  operation applies no other rounding. On one entry whose base pay is a double this is the
  entry's final pay, and on the two entries 100 with 0 percent and 200 with 50 percent it
  is 200.
\<close>

theorem calculateAveragePay_mean:
  "(isEmptyWorkList (fst (calculateAveragePay d)) \<longleftrightarrow> workTypes d = []) \<and>
   (workTypes d = [] \<longrightarrow>
      fst (calculateAveragePay d) = Inl (EmptyWorkListException ''cannot calculate average'')) \<and>
   (workTypes d \<noteq> [] \<longrightarrow>
      fst (calculateAveragePay d) =
        Inr (fdiv (foldl fadd (Finite 0) (map getFinalPay (workTypes d)))
               (round_nearest (real (length (workTypes d)))))) \<and>
   (workTypes d = [w] \<and> is_double (basePay w) \<longrightarrow>
      fst (calculateAveragePay d) = Inr (getFinalPay w)) \<and>
   (n1 \<noteq> [] \<and> n2 \<noteq> [] \<and> n1 \<noteq> n2 \<longrightarrow>
      map getFinalPay (workTypes (serve_all new_PayrollDepartment
         [AddWorkType n1 100 0, AddWorkType n2 200 50])) = [Finite 100, Finite 300] \<and>
      fst (calculateAveragePay (serve_all new_PayrollDepartment
         [AddWorkType n1 100 0, AddWorkType n2 200 50])) = Inr (Finite 200))"
proof -
  have c1: "isEmptyWorkList (fst (calculateAveragePay d)) \<longleftrightarrow> workTypes d = []"
    by (simp add: calculateAveragePay_def isEmptyWorkList_def)
  have c2: "workTypes d = [] \<longrightarrow>
      fst (calculateAveragePay d) = Inl (EmptyWorkListException ''cannot calculate average'')"
    by (simp add: calculateAveragePay_def)
  have c3: "workTypes d \<noteq> [] \<longrightarrow>
      fst (calculateAveragePay d) =
        Inr (fdiv (foldl fadd (Finite 0) (map getFinalPay (workTypes d)))
               (round_nearest (real (length (workTypes d)))))"
    by (simp add: calculateAveragePay_def sum_loop_eq)
  have c4: "workTypes d = [w] \<and> is_double (basePay w) \<longrightarrow>
      fst (calculateAveragePay d) = Inr (getFinalPay w)"
  proof
    assume h: "workTypes d = [w] \<and> is_double (basePay w)"
    then have "fst (calculateAveragePay d) = Inr (fdiv (fadd (Finite 0) (getFinalPay w)) 1)"
      by (simp add: calculateAveragePay_def round_nearest_1)
    with h show "fst (calculateAveragePay d) = Inr (getFinalPay w)"
      by (simp only: mean_of_one)
  qed
  have c5: "n1 \<noteq> [] \<and> n2 \<noteq> [] \<and> n1 \<noteq> n2 \<longrightarrow>
      map getFinalPay (workTypes (serve_all new_PayrollDepartment
         [AddWorkType n1 100 0, AddWorkType n2 200 50])) = [Finite 100, Finite 300] \<and>
      fst (calculateAveragePay (serve_all new_PayrollDepartment
         [AddWorkType n1 100 0, AddWorkType n2 200 50])) = Inr (Finite 200)"
  proof
    define D where "D = serve_all new_PayrollDepartment
         [AddWorkType n1 100 0, AddWorkType n2 200 50]"
    assume "n1 \<noteq> [] \<and> n2 \<noteq> [] \<and> n1 \<noteq> n2"
    then have ws: "workTypes D =
        [\<lparr>name = n1, basePay = 100, bonusStrategy = NoBonusStrategy\<rparr>,
         \<lparr>name = n2, basePay = 200, bonusStrategy = PercentageBonusStrategy 50\<rparr>]"
      by (simp add: D_def run_defs)
    have pays: "map getFinalPay
        [\<lparr>name = n1, basePay = 100, bonusStrategy = NoBonusStrategy\<rparr>,
         \<lparr>name = n2, basePay = 200, bonusStrategy = PercentageBonusStrategy 50\<rparr>] =
        [Finite 100, Finite 300]"
      using computePay_examples(1) by (simp add: getFinalPay_def del: computePay.simps(2))
    have mean: "fdiv (fadd (fadd (Finite 0) (Finite 100)) (Finite 300)) 2 = Finite 200"
      using is_double_numbers by (simp add: is_double_def)
    have "map getFinalPay (workTypes D) = [Finite 100, Finite 300] \<and>
      fst (calculateAveragePay D) = Inr (Finite 200)"
      using pays mean
      by (simp add: calculateAveragePay_def sum_loop_eq ws round_nearest_sizes
          del: fadd.simps fdiv.simps)
    then show "map getFinalPay (workTypes (serve_all new_PayrollDepartment
         [AddWorkType n1 100 0, AddWorkType n2 200 50])) = [Finite 100, Finite 300] \<and>
      fst (calculateAveragePay (serve_all new_PayrollDepartment
         [AddWorkType n1 100 0, AddWorkType n2 200 50])) = Inr (Finite 200)"
      by (simp only: D_def)
  qed
  show ?thesis
    by (intro conjI) (fact c1 c2 c3 c4 c5)+
qed

theorem calculateAveragePay_mean_witness:
  "fst (calculateAveragePay new_PayrollDepartment) =
     Inl (EmptyWorkListException ''cannot calculate average'') \<and>
   is_double 120 \<and>
   fst (calculateAveragePay (serve_all new_PayrollDepartment [AddWorkType ''a'' 120 25])) =
     Inr (Finite 150) \<and>
   fst (calculateAveragePay (serve_all new_PayrollDepartment
         [AddWorkType ''a'' 100 0, AddWorkType ''b'' 200 50])) = Inr (Finite 200)"
proof -
  have one: "workTypes (serve_all new_PayrollDepartment [AddWorkType ''a'' 120 25]) =
      [\<lparr>name = ''a'', basePay = 120, bonusStrategy = PercentageBonusStrategy 25\<rparr>]"
    by (simp add: run_defs)
  have pay: "getFinalPay \<lparr>name = ''a'', basePay = 120,
      bonusStrategy = PercentageBonusStrategy 25\<rparr> = Finite 150"
    using computePay_examples(2) by (simp add: getFinalPay_def del: computePay.simps(2))
  have names: "''a'' \<noteq> [] \<and> ''b'' \<noteq> [] \<and> ''a'' \<noteq> ''b''"
    by simp
  have empty: "workTypes new_PayrollDepartment = []"
    by (simp add: new_PayrollDepartment_def)
  from calculateAveragePay_mean [of new_PayrollDepartment
      "\<lparr>name = ''a'', basePay = 120, bonusStrategy = PercentageBonusStrategy 25\<rparr>" "''a''" "''b''"]
    calculateAveragePay_mean [of "serve_all new_PayrollDepartment [AddWorkType ''a'' 120 25]"
      "\<lparr>name = ''a'', basePay = 120, bonusStrategy = PercentageBonusStrategy 25\<rparr>" "''a''" "''b''"]
    one pay names empty is_double_numbers
  show ?thesis
    by (simp add: is_double_def round_nearest_1)
qed

text \<open>
  The claim as the specification states it, with the result equal to the arithmetic mean
  of the final pays, fails for the three entries 1, 1 and 2 without bonus: their mean
  \<open>4 / 3\<close> is not a double, and the code returns the double nearest to it.
\<close>

theorem calculateAveragePay_mean_counterexample:
  "map getFinalPay (workTypes (serve_all new_PayrollDepartment
      [AddWorkType ''a'' 1 0, AddWorkType ''b'' 1 0, AddWorkType ''c'' 2 0])) =
     [Finite 1, Finite 1, Finite 2] \<and>
   fst (calculateAveragePay (serve_all new_PayrollDepartment
      [AddWorkType ''a'' 1 0, AddWorkType ''b'' 1 0, AddWorkType ''c'' 2 0])) =
     Inr (Finite (6004799503160661 / 2 ^ 52)) \<and>
   Finite (6004799503160661 / 2 ^ 52) \<noteq> Finite ((1 + 1 + 2) / 3)"
proof -
  define D where "D = serve_all new_PayrollDepartment
      [AddWorkType ''a'' 1 0, AddWorkType ''b'' 1 0, AddWorkType ''c'' 2 0]"
  have ws: "workTypes D =
      [\<lparr>name = ''a'', basePay = 1, bonusStrategy = NoBonusStrategy\<rparr>,
       \<lparr>name = ''b'', basePay = 1, bonusStrategy = NoBonusStrategy\<rparr>,
       \<lparr>name = ''c'', basePay = 2, bonusStrategy = NoBonusStrategy\<rparr>]"
    by (simp add: D_def run_defs)
  have sum: "fadd (fadd (fadd (Finite 0) (Finite 1)) (Finite 1)) (Finite 2) = Finite 4"
    using is_double_numbers by (simp add: is_double_def)
  have quot: "fdiv (Finite 4) 3 = Finite (6004799503160661 / 2 ^ 52)"
    using round_nearest_eval [of 0 "4 / 3"]
    by (simp add: rnd_def round_half_even_def power_int_minus)
  have "fdiv (fadd (fadd (fadd (Finite 0) (Finite 1)) (Finite 1)) (Finite 2)) 3 =
      Finite (6004799503160661 / 2 ^ 52)"
    by (simp only: sum quot)
  then have "map getFinalPay (workTypes D) = [Finite 1, Finite 1, Finite 2] \<and>
      fst (calculateAveragePay D) = Inr (Finite (6004799503160661 / 2 ^ 52)) \<and>
      Finite (6004799503160661 / 2 ^ 52) \<noteq> Finite ((1 + 1 + 2) / 3)"
    by (simp add: calculateAveragePay_def sum_loop_eq ws getFinalPay_def round_nearest_sizes
        del: fadd.simps fdiv.simps)
  then show ?thesis
    unfolding D_def .
qed

subsection \<open>A failed call changes nothing\<close>

text \<open>
  Claim C3. When \<open>addWorkType\<close> throws, the exception is \<open>DuplicateWorkTypeException\<close> or
  \<open>InvalidRateException\<close> and the department is what it was before the call. Adding a
  name that is stored already throws \<open>DuplicateWorkTypeException\<close> with a message naming
  it, whatever base pay and bonus percent come with it: after a successful call and a second
  call with the same name the department holds one more entry than before, and from the
  empty department exactly the entry of the first call. The two queries leave the department
  as it is.
\<close>

theorem addWorkType_atomic:
  "(fst (addWorkType d nm pay bonusPercent) \<noteq> Inr () \<longrightarrow>
      (isDuplicateWorkType (fst (addWorkType d nm pay bonusPercent)) \<or>
       isInvalidRate (fst (addWorkType d nm pay bonusPercent))) \<and>
      fst (snd (addWorkType d nm pay bonusPercent)) = d) \<and>
   (nm \<in> set (map getName (workTypes d)) \<longrightarrow>
      fst (addWorkType d nm pay bonusPercent) =
        Inl (DuplicateWorkTypeException (duplicate_message nm)) \<and>
      fst (snd (addWorkType d nm pay bonusPercent)) = d) \<and>
   (fst (addWorkType d nm pay bonusPercent) = Inr () \<longrightarrow>
      fst (addWorkType (fst (snd (addWorkType d nm pay bonusPercent))) nm pay2 bonusPercent2) =
        Inl (DuplicateWorkTypeException (duplicate_message nm)) \<and>
      fst (snd (addWorkType (fst (snd (addWorkType d nm pay bonusPercent))) nm pay2 bonusPercent2)) =
        fst (snd (addWorkType d nm pay bonusPercent)) \<and>
      length (workTypes (fst (snd (addWorkType (fst (snd (addWorkType d nm pay bonusPercent)))
         nm pay2 bonusPercent2)))) = length (workTypes d) + 1) \<and>
   (fst (addWorkType new_PayrollDepartment nm pay bonusPercent) = Inr () \<longrightarrow>
      workTypes (fst (snd (addWorkType
         (fst (snd (addWorkType new_PayrollDepartment nm pay bonusPercent)))
         nm pay2 bonusPercent2))) =
        [\<lparr>name = nm, basePay = pay,
          bonusStrategy = (if bonusPercent = 0 then NoBonusStrategy
                           else PercentageBonusStrategy bonusPercent)\<rparr>]) \<and>
   snd (calculateAveragePay d) = d \<and>
   fst (snd (printAll d)) = d"
proof -
  have fails: "fst (addWorkType d nm pay bonusPercent) \<noteq> Inr () \<longrightarrow>
      (isDuplicateWorkType (fst (addWorkType d nm pay bonusPercent)) \<or>
       isInvalidRate (fst (addWorkType d nm pay bonusPercent))) \<and>
      fst (snd (addWorkType d nm pay bonusPercent)) = d"
    using addWorkType_failure_kind [of d nm pay bonusPercent]
      addWorkType_failure_unchanged [of d nm pay bonusPercent]
    by (auto split: if_splits)
  have dup: "nm \<in> set (map getName (workTypes d)) \<longrightarrow>
      fst (addWorkType d nm pay bonusPercent) =
        Inl (DuplicateWorkTypeException (duplicate_message nm)) \<and>
      fst (snd (addWorkType d nm pay bonusPercent)) = d"
    by (simp add: addWorkType_duplicate existsWorkType_iff del: set_map)
  have again: "existsWorkType (fst (snd (addWorkType e nm pay bonusPercent))) nm"
    if "fst (addWorkType e nm pay bonusPercent) = Inr ()" for e
    using addWorkType_success_appends [OF that]
    by (simp add: existsWorkType_iff getName_def)
  have twice: "fst (addWorkType d nm pay bonusPercent) = Inr () \<longrightarrow>
      fst (addWorkType (fst (snd (addWorkType d nm pay bonusPercent))) nm pay2 bonusPercent2) =
        Inl (DuplicateWorkTypeException (duplicate_message nm)) \<and>
      fst (snd (addWorkType (fst (snd (addWorkType d nm pay bonusPercent))) nm pay2 bonusPercent2)) =
        fst (snd (addWorkType d nm pay bonusPercent)) \<and>
      length (workTypes (fst (snd (addWorkType (fst (snd (addWorkType d nm pay bonusPercent)))
         nm pay2 bonusPercent2)))) = length (workTypes d) + 1"
  proof
    assume ok: "fst (addWorkType d nm pay bonusPercent) = Inr ()"
    from again [OF ok] addWorkType_success_appends [OF ok]
    show "fst (addWorkType (fst (snd (addWorkType d nm pay bonusPercent))) nm pay2 bonusPercent2) =
        Inl (DuplicateWorkTypeException (duplicate_message nm)) \<and>
      fst (snd (addWorkType (fst (snd (addWorkType d nm pay bonusPercent))) nm pay2 bonusPercent2)) =
        fst (snd (addWorkType d nm pay bonusPercent)) \<and>
      length (workTypes (fst (snd (addWorkType (fst (snd (addWorkType d nm pay bonusPercent)))
         nm pay2 bonusPercent2)))) = length (workTypes d) + 1"
      by (simp add: addWorkType_duplicate)
  qed
  have fresh: "fst (addWorkType new_PayrollDepartment nm pay bonusPercent) = Inr () \<longrightarrow>
      workTypes (fst (snd (addWorkType
         (fst (snd (addWorkType new_PayrollDepartment nm pay bonusPercent)))
         nm pay2 bonusPercent2))) =
        [\<lparr>name = nm, basePay = pay,
          bonusStrategy = (if bonusPercent = 0 then NoBonusStrategy
                           else PercentageBonusStrategy bonusPercent)\<rparr>]"
  proof
    assume ok: "fst (addWorkType new_PayrollDepartment nm pay bonusPercent) = Inr ()"
    from again [OF ok] addWorkType_success_appends [OF ok]
    show "workTypes (fst (snd (addWorkType
         (fst (snd (addWorkType new_PayrollDepartment nm pay bonusPercent)))
         nm pay2 bonusPercent2))) =
        [\<lparr>name = nm, basePay = pay,
          bonusStrategy = (if bonusPercent = 0 then NoBonusStrategy
                           else PercentageBonusStrategy bonusPercent)\<rparr>]"
      by (simp add: addWorkType_duplicate new_PayrollDepartment_def)
  qed
  from fails dup twice fresh show ?thesis
    by (simp only: calculateAveragePay_state printAll_state simp_thms)
qed

theorem addWorkType_atomic_witness:
  "fst (addWorkType new_PayrollDepartment ''welding'' 0 10) =
     Inl (InvalidRateException ''base pay must be > 0'') \<and>
   fst (snd (addWorkType new_PayrollDepartment ''welding'' 0 10)) = new_PayrollDepartment \<and>
   fst (addWorkType new_PayrollDepartment ''welding'' 500 10) = Inr () \<and>
   fst (addWorkType (fst (snd (addWorkType new_PayrollDepartment ''welding'' 500 10)))
          ''welding'' 700 0) =
     Inl (DuplicateWorkTypeException (duplicate_message ''welding'')) \<and>
   workTypes (fst (snd (addWorkType (fst (snd (addWorkType new_PayrollDepartment ''welding'' 500 10)))
          ''welding'' 700 0))) =
     [\<lparr>name = ''welding'', basePay = 500, bonusStrategy = PercentageBonusStrategy 10\<rparr>]"
proof -
  have bad: "fst (addWorkType new_PayrollDepartment ''welding'' 0 10) =
     Inl (InvalidRateException ''base pay must be > 0'')"
    by (simp add: run_defs)
  have good: "addWorkType new_PayrollDepartment ''welding'' 500 10 =
     (Inr (),
      \<lparr>workTypes = [\<lparr>name = ''welding'', basePay = 500,
                     bonusStrategy = PercentageBonusStrategy 10\<rparr>]\<rparr>, [])"
    by (simp add: run_defs)
  from addWorkType_atomic [of new_PayrollDepartment "''welding''" 0 10 700 0]
    addWorkType_atomic [of new_PayrollDepartment "''welding''" 500 10 700 0] bad good
  show ?thesis
    by simp
qed

subsection \<open>Names are unique\<close>

text \<open>
  Claim C4. No two stored work types have the same name: this holds in the empty
  department, and every call of \<open>addWorkType\<close>, every turn and every sequence of turns
  preserves it. \<open>existsWorkType\<close> is true exactly when some stored entry has the very same
  string as its name, and then \<open>addWorkType\<close> throws \<open>DuplicateWorkTypeException\<close>; the
  queries store nothing. The comparison is by the bytes of the string, so \<open>Welding\<close> and
  \<open>welding\<close> are two names.
\<close>

theorem names_unique:
  "distinct (map getName (workTypes new_PayrollDepartment)) \<and>
   (distinct (map getName (workTypes d)) \<longrightarrow>
      distinct (map getName (workTypes (fst (snd (addWorkType d nm pay bonusPercent))))) \<and>
      distinct (map getName (workTypes (serve d r))) \<and>
      distinct (map getName (workTypes (serve_all d rs)))) \<and>
   distinct (map getName (workTypes (serve_all new_PayrollDepartment rs))) \<and>
   (existsWorkType d nm \<longleftrightarrow> (\<exists>w \<in> set (workTypes d). getName w = nm)) \<and>
   (existsWorkType d nm \<longrightarrow>
      fst (addWorkType d nm pay bonusPercent) =
        Inl (DuplicateWorkTypeException (duplicate_message nm))) \<and>
   workTypes (fst (snd (printAll d))) = workTypes d \<and>
   workTypes (snd (calculateAveragePay d)) = workTypes d \<and>
   map getName (workTypes (serve_all new_PayrollDepartment
      [AddWorkType ''Welding'' 10 0, AddWorkType ''welding'' 10 0, AddWorkType ''Welding'' 20 0])) =
     [''Welding'', ''welding'']"
proof -
  have init: "distinct (map getName (workTypes new_PayrollDepartment))"
    by (simp add: new_PayrollDepartment_def)
  have add: "distinct (map getName (workTypes d)) \<longrightarrow>
      distinct (map getName (workTypes (fst (snd (addWorkType d nm pay bonusPercent)))))"
    using serve_distinct [of d "AddWorkType nm pay bonusPercent"] by simp
  have reach: "distinct (map getName (workTypes (serve_all new_PayrollDepartment rs)))"
    using init by (rule serve_all_distinct)
  have ex: "existsWorkType d nm \<longleftrightarrow> (\<exists>w \<in> set (workTypes d). getName w = nm)"
    by (auto simp: existsWorkType_iff)
  have dup: "existsWorkType d nm \<longrightarrow>
      fst (addWorkType d nm pay bonusPercent) =
        Inl (DuplicateWorkTypeException (duplicate_message nm))"
    by (simp add: addWorkType_duplicate)
  have cases: "map getName (workTypes (serve_all new_PayrollDepartment
      [AddWorkType ''Welding'' 10 0, AddWorkType ''welding'' 10 0, AddWorkType ''Welding'' 20 0])) =
     [''Welding'', ''welding'']"
    by (simp add: run_defs)
  have turn: "distinct (map getName (workTypes d)) \<longrightarrow>
      distinct (map getName (workTypes (serve d r)))"
    using serve_distinct [of d r] by blast
  have turns: "distinct (map getName (workTypes d)) \<longrightarrow>
      distinct (map getName (workTypes (serve_all d rs)))"
    using serve_all_distinct [of d rs] by blast
  have print: "workTypes (fst (snd (printAll d))) = workTypes d"
    by (simp only: printAll_state)
  have avg: "workTypes (snd (calculateAveragePay d)) = workTypes d"
    by (simp only: calculateAveragePay_state)
  from init add turn turns reach ex dup print avg cases show ?thesis
    by blast
qed

theorem names_unique_witness:
  "distinct (map getName (workTypes (serve_all new_PayrollDepartment
      [AddWorkType ''a'' 10 0, AddWorkType ''b'' 10 5, AddWorkType ''a'' 30 0, PrintAll]))) \<and>
   existsWorkType (serve new_PayrollDepartment (AddWorkType ''a'' 10 0)) ''a'' \<and>
   fst (addWorkType (serve new_PayrollDepartment (AddWorkType ''a'' 10 0)) ''a'' 30 0) =
     Inl (DuplicateWorkTypeException (duplicate_message ''a''))"
proof -
  have ex: "existsWorkType (serve new_PayrollDepartment (AddWorkType ''a'' 10 0)) ''a''"
    by (simp add: run_defs)
  have init: "distinct (map getName (workTypes new_PayrollDepartment))"
    by (simp add: new_PayrollDepartment_def)
  from names_unique [of new_PayrollDepartment "''a''" 10 0 PrintAll
      "[AddWorkType ''a'' 10 0, AddWorkType ''b'' 10 5, AddWorkType ''a'' 30 0, PrintAll]"]
    names_unique [of "serve new_PayrollDepartment (AddWorkType ''a'' 10 0)" "''a''" 30 0 PrintAll "[]"]
    ex init
  show ?thesis
    by blast
qed

subsection \<open>The range of the bonus percent\<close>

text \<open>
  Claim C5. For a name that is not stored yet (and, for the calls that succeed, a name
  that is not empty and a base pay in \<open>(0, 1000000]\<close>), \<open>addWorkType\<close> succeeds with
  \<open>bonusPercent = 0\<close>, choosing the no-bonus strategy, and with \<open>bonusPercent = 100\<close>; it
  throws \<open>InvalidRateException\<close> when \<open>bonusPercent > 100\<close> (as for the double written
  100.0001) and when \<open>bonusPercent < 0\<close> (as for -1). The department tests the upper bound
  before it constructs the strategy: with a percent above 100 no constructor runs, while a
  percent below 0 is rejected by the constructor of the percentage strategy, and that
  constructor only ever runs with a percent that is neither 0 nor above 100. The
  constructor itself rejects exactly a percent below 0 or above 100, the same bounds.
\<close>

theorem bonusPercent_bounds:
  "(\<not> existsWorkType d nm \<and> nm \<noteq> [] \<and> 0 < pay \<and> pay \<le> 1000000 \<longrightarrow>
      addWorkType d nm pay 0 =
        (Inr (),
         d\<lparr>workTypes := workTypes d @
            [\<lparr>name = nm, basePay = pay, bonusStrategy = NoBonusStrategy\<rparr>]\<rparr>,
         if length nm > 50 then [LongNameWarning] else []) \<and>
      addWorkType d nm pay 100 =
        (Inr (),
         d\<lparr>workTypes := workTypes d @
            [\<lparr>name = nm, basePay = pay, bonusStrategy = PercentageBonusStrategy 100\<rparr>]\<rparr>,
         if length nm > 50 then [LongNameWarning] else [])) \<and>
   (\<not> existsWorkType d nm \<and> bonusPercent > 100 \<longrightarrow>
      fst (addWorkType d nm pay bonusPercent) =
        Inl (InvalidRateException ''bonus percent cannot exceed 100%'') \<and>
      snd (snd (snd (addWorkType_run d nm pay bonusPercent))) = []) \<and>
   (\<not> existsWorkType d nm \<and> bonusPercent < 0 \<longrightarrow>
      fst (addWorkType d nm pay bonusPercent) =
        Inl (InvalidRateException ''bonus percent must be >= 0'') \<and>
      snd (snd (snd (addWorkType_run d nm pay bonusPercent))) =
        [Call_PercentageBonusStrategy bonusPercent]) \<and>
   (Call_PercentageBonusStrategy p \<in> set (snd (snd (snd (addWorkType_run d nm pay bonusPercent)))) \<longrightarrow>
      p = bonusPercent \<and> bonusPercent \<noteq> 0 \<and> \<not> bonusPercent > 100) \<and>
   (\<not> existsWorkType d nm \<and> bonusPercent \<noteq> 0 \<and> \<not> bonusPercent > 100 \<longrightarrow>
      hd (snd (snd (snd (addWorkType_run d nm pay bonusPercent)))) =
        Call_PercentageBonusStrategy bonusPercent) \<and>
   (\<not> existsWorkType d nm \<longrightarrow>
      isInvalidRate (fst (addWorkType d nm pay (100 + 1 / 10000))) \<and>
      isInvalidRate (fst (addWorkType d nm pay (round_nearest (100 + 1 / 10000)))) \<and>
      isInvalidRate (fst (addWorkType d nm pay (- 1)))) \<and>
   (isInvalidRate (make_PercentageBonusStrategy bonusPercent) \<longleftrightarrow>
      bonusPercent < 0 \<or> bonusPercent > 100) \<and>
   (make_PercentageBonusStrategy bonusPercent = Inr (PercentageBonusStrategy bonusPercent) \<longleftrightarrow>
      \<not> (bonusPercent < 0 \<or> bonusPercent > 100)) \<and>
   (\<not> bonusPercent > 100 \<longrightarrow>
      make_PercentageBonusStrategy bonusPercent \<noteq>
        Inl (InvalidRateException ''bonus percent cannot exceed 100%'')) \<and>
   (fst (addWorkType_run d nm pay bonusPercent),
    fst (snd (addWorkType_run d nm pay bonusPercent)),
    fst (snd (snd (addWorkType_run d nm pay bonusPercent)))) =
     addWorkType d nm pay bonusPercent"
proof -
  have c1: "\<not> existsWorkType d nm \<and> nm \<noteq> [] \<and> 0 < pay \<and> pay \<le> 1000000 \<longrightarrow>
      addWorkType d nm pay 0 =
        (Inr (),
         d\<lparr>workTypes := workTypes d @
            [\<lparr>name = nm, basePay = pay, bonusStrategy = NoBonusStrategy\<rparr>]\<rparr>,
         if length nm > 50 then [LongNameWarning] else []) \<and>
      addWorkType d nm pay 100 =
        (Inr (),
         d\<lparr>workTypes := workTypes d @
            [\<lparr>name = nm, basePay = pay, bonusStrategy = PercentageBonusStrategy 100\<rparr>]\<rparr>,
         if length nm > 50 then [LongNameWarning] else [])"
    by (simp add: addWorkType_ok)
  have high: "\<not> existsWorkType d nm \<and> b > 100 \<longrightarrow>
      fst (addWorkType d nm pay b) =
        Inl (InvalidRateException ''bonus percent cannot exceed 100%'') \<and>
      snd (snd (snd (addWorkType_run d nm pay b))) = []" for b
    by (simp add: addWorkType_def addWorkType_run_def)
  have low: "\<not> existsWorkType d nm \<and> b < 0 \<longrightarrow>
      fst (addWorkType d nm pay b) =
        Inl (InvalidRateException ''bonus percent must be >= 0'') \<and>
      snd (snd (snd (addWorkType_run d nm pay b))) = [Call_PercentageBonusStrategy b]" for b
    by (simp add: addWorkType_def addWorkType_run_def make_PercentageBonusStrategy_def)
  have c4: "Call_PercentageBonusStrategy p \<in>
        set (snd (snd (snd (addWorkType_run d nm pay bonusPercent)))) \<longrightarrow>
      p = bonusPercent \<and> bonusPercent \<noteq> 0 \<and> \<not> bonusPercent > 100"
    by (auto simp: addWorkType_run_def split: if_splits sum.splits)
  have c5: "\<not> existsWorkType d nm \<and> bonusPercent \<noteq> 0 \<and> \<not> bonusPercent > 100 \<longrightarrow>
      hd (snd (snd (snd (addWorkType_run d nm pay bonusPercent)))) =
        Call_PercentageBonusStrategy bonusPercent"
    by (auto simp: addWorkType_run_def split: sum.splits)
  have "round_nearest (100 + 1 / 10000) = 7036881454640818 / 2 ^ 46"
    using round_nearest_eval [of 6 "100 + 1 / 10000"]
    by (simp add: round_half_even_def power_int_minus)
  then have above: "round_nearest (100 + 1 / 10000) > 100"
    by simp
  have c6: "\<not> existsWorkType d nm \<longrightarrow>
      isInvalidRate (fst (addWorkType d nm pay (100 + 1 / 10000))) \<and>
      isInvalidRate (fst (addWorkType d nm pay (round_nearest (100 + 1 / 10000)))) \<and>
      isInvalidRate (fst (addWorkType d nm pay (- 1)))"
    using high [of "100 + 1 / 10000"] high [of "round_nearest (100 + 1 / 10000)"] low [of "- 1"]
      above
    by (simp add: isInvalidRate_def)
  have c7: "isInvalidRate (make_PercentageBonusStrategy bonusPercent) \<longleftrightarrow>
      bonusPercent < 0 \<or> bonusPercent > 100"
    by (simp add: make_PercentageBonusStrategy_def isInvalidRate_def)
  have c8: "make_PercentageBonusStrategy bonusPercent = Inr (PercentageBonusStrategy bonusPercent) \<longleftrightarrow>
      \<not> (bonusPercent < 0 \<or> bonusPercent > 100)"
    by (simp add: make_PercentageBonusStrategy_def)
  have c9: "\<not> bonusPercent > 100 \<longrightarrow>
      make_PercentageBonusStrategy bonusPercent \<noteq>
        Inl (InvalidRateException ''bonus percent cannot exceed 100%'')"
    by (simp add: make_PercentageBonusStrategy_def)
  have c10: "(fst (addWorkType_run d nm pay bonusPercent),
    fst (snd (addWorkType_run d nm pay bonusPercent)),
    fst (snd (snd (addWorkType_run d nm pay bonusPercent)))) =
     addWorkType d nm pay bonusPercent"
    by (simp add: addWorkType_def split: prod.splits)
  show ?thesis
    by (intro conjI) (fact c1 high low c4 c5 c6 c7 c8 c9 c10)+
qed

theorem bonusPercent_bounds_witness:
  "fst (addWorkType new_PayrollDepartment ''welding'' 10 0) = Inr () \<and>
   fst (addWorkType new_PayrollDepartment ''welding'' 10 100) = Inr () \<and>
   addWorkType_run new_PayrollDepartment ''welding'' 10 100 =
     (Inr (),
      \<lparr>workTypes = [\<lparr>name = ''welding'', basePay = 10,
                     bonusStrategy = PercentageBonusStrategy 100\<rparr>]\<rparr>, [],
      [Call_PercentageBonusStrategy 100, Call_WorkTypeBase ''welding'' 10]) \<and>
   fst (addWorkType new_PayrollDepartment ''welding'' 10 (100 + 1 / 10000)) =
     Inl (InvalidRateException ''bonus percent cannot exceed 100%'') \<and>
   snd (snd (snd (addWorkType_run new_PayrollDepartment ''welding'' 10 (100 + 1 / 10000)))) = [] \<and>
   fst (addWorkType new_PayrollDepartment ''welding'' 10 (- 1)) =
     Inl (InvalidRateException ''bonus percent must be >= 0'') \<and>
   snd (snd (snd (addWorkType_run new_PayrollDepartment ''welding'' 10 (- 1)))) =
     [Call_PercentageBonusStrategy (- 1)] \<and>
   make_PercentageBonusStrategy 100 = Inr (PercentageBonusStrategy 100)"
proof -
  have fresh: "\<not> existsWorkType new_PayrollDepartment ''welding''"
    by (simp add: existsWorkType_def new_PayrollDepartment_def)
  have run: "addWorkType_run new_PayrollDepartment ''welding'' 10 100 =
     (Inr (),
      \<lparr>workTypes = [\<lparr>name = ''welding'', basePay = 10,
                     bonusStrategy = PercentageBonusStrategy 100\<rparr>]\<rparr>, [],
      [Call_PercentageBonusStrategy 100, Call_WorkTypeBase ''welding'' 10])"
    by (simp add: run_defs)
  from bonusPercent_bounds [of new_PayrollDepartment "''welding''" 10 "100 + 1 / 10000" 100]
    bonusPercent_bounds [of new_PayrollDepartment "''welding''" 10 "- 1" 100]
    bonusPercent_bounds [of new_PayrollDepartment "''welding''" 10 100 100]
    fresh run
  show ?thesis
    by simp
qed

subsection \<open>The checks of the work type constructor\<close>

text \<open>
  Claim C6. The constructor of \<open>WorkTypeBase\<close> throws \<open>InvalidRateException\<close> exactly
  when the name is empty, the base pay is not positive, the base pay exceeds 1000000 or the
  strategy is null; so base pays 0, -5 and 1000001 are rejected and 1000000 is accepted.
  \<open>addWorkType\<close> inherits these checks: in every department reached from the empty one an
  empty name is rejected with \<open>InvalidRateException\<close> whatever the other arguments, and for
  a name not stored yet the call throws \<open>InvalidRateException\<close> exactly when the name, the
  base pay or the bonus percent is out of range.
\<close>

theorem WorkTypeBase_validation:
  "(isInvalidRate (make_WorkTypeBase nm pay strategy) \<longleftrightarrow>
      nm = [] \<or> pay \<le> 0 \<or> pay > 1000000 \<or> strategy = None) \<and>
   (nm \<noteq> [] \<and> 0 < pay \<and> pay \<le> 1000000 \<longrightarrow>
      make_WorkTypeBase nm pay (Some s) = Inr \<lparr>name = nm, basePay = pay, bonusStrategy = s\<rparr>) \<and>
   isInvalidRate (make_WorkTypeBase [] pay strategy) \<and>
   isInvalidRate (make_WorkTypeBase nm 0 strategy) \<and>
   isInvalidRate (make_WorkTypeBase nm (- 5) strategy) \<and>
   isInvalidRate (make_WorkTypeBase nm 1000001 strategy) \<and>
   isInvalidRate (make_WorkTypeBase nm pay None) \<and>
   (nm \<noteq> [] \<longrightarrow>
      make_WorkTypeBase nm 1000000 (Some s) =
        Inr \<lparr>name = nm, basePay = 1000000, bonusStrategy = s\<rparr>) \<and>
   isInvalidRate (fst (addWorkType (serve_all new_PayrollDepartment rs) [] pay bonusPercent)) \<and>
   (\<not> existsWorkType d nm \<longrightarrow>
      (isInvalidRate (fst (addWorkType d nm pay bonusPercent)) \<longleftrightarrow>
         nm = [] \<or> pay \<le> 0 \<or> pay > 1000000 \<or> bonusPercent < 0 \<or> bonusPercent > 100) \<and>
      isInvalidRate (fst (addWorkType d nm 0 bonusPercent)) \<and>
      isInvalidRate (fst (addWorkType d nm (- 5) bonusPercent)) \<and>
      isInvalidRate (fst (addWorkType d nm 1000001 bonusPercent))) \<and>
   (\<not> existsWorkType d nm \<and> nm \<noteq> [] \<and> 0 \<le> bonusPercent \<and> bonusPercent \<le> 100 \<longrightarrow>
      fst (addWorkType d nm 1000000 bonusPercent) = Inr ())"
proof -
  have c1: "isInvalidRate (make_WorkTypeBase nm pay strategy) \<longleftrightarrow>
      nm = [] \<or> pay \<le> 0 \<or> pay > 1000000 \<or> strategy = None"
    by (rule make_WorkTypeBase_invalid_iff)
  have c2: "nm \<noteq> [] \<and> 0 < pay \<and> pay \<le> 1000000 \<longrightarrow>
      make_WorkTypeBase nm pay (Some s) = Inr \<lparr>name = nm, basePay = pay, bonusStrategy = s\<rparr>"
    by (simp add: make_WorkTypeBase_valid)
  have c3: "isInvalidRate (make_WorkTypeBase [] pay strategy)"
    by (simp add: make_WorkTypeBase_invalid_iff)
  have c4: "isInvalidRate (make_WorkTypeBase nm 0 strategy)"
    by (simp add: make_WorkTypeBase_invalid_iff)
  have c5: "isInvalidRate (make_WorkTypeBase nm (- 5) strategy)"
    by (simp add: make_WorkTypeBase_invalid_iff)
  have c6: "isInvalidRate (make_WorkTypeBase nm 1000001 strategy)"
    by (simp add: make_WorkTypeBase_invalid_iff)
  have c7: "isInvalidRate (make_WorkTypeBase nm pay None)"
    by (simp add: make_WorkTypeBase_invalid_iff)
  have c8: "nm \<noteq> [] \<longrightarrow>
      make_WorkTypeBase nm 1000000 (Some s) =
        Inr \<lparr>name = nm, basePay = 1000000, bonusStrategy = s\<rparr>"
    by (simp add: make_WorkTypeBase_valid)
  have "[] \<notin> set (map getName (workTypes new_PayrollDepartment))"
    by (simp add: new_PayrollDepartment_def)
  then have "[] \<notin> set (map getName (workTypes (serve_all new_PayrollDepartment rs)))"
    by (rule serve_all_nonempty_names)
  then have "\<not> existsWorkType (serve_all new_PayrollDepartment rs) []"
    by (simp only: existsWorkType_iff not_False_eq_True)
  then have c9: "isInvalidRate (fst (addWorkType (serve_all new_PayrollDepartment rs) []
      pay bonusPercent))"
    by (simp add: addWorkType_invalid_iff)
  have c10: "\<not> existsWorkType d nm \<longrightarrow>
      (isInvalidRate (fst (addWorkType d nm pay bonusPercent)) \<longleftrightarrow>
         nm = [] \<or> pay \<le> 0 \<or> pay > 1000000 \<or> bonusPercent < 0 \<or> bonusPercent > 100) \<and>
      isInvalidRate (fst (addWorkType d nm 0 bonusPercent)) \<and>
      isInvalidRate (fst (addWorkType d nm (- 5) bonusPercent)) \<and>
      isInvalidRate (fst (addWorkType d nm 1000001 bonusPercent))"
    by (simp add: addWorkType_invalid_iff)
  have c11: "\<not> existsWorkType d nm \<and> nm \<noteq> [] \<and> 0 \<le> bonusPercent \<and> bonusPercent \<le> 100 \<longrightarrow>
      fst (addWorkType d nm 1000000 bonusPercent) = Inr ()"
    by (simp add: addWorkType_success_iff)
  show ?thesis
    by (intro conjI) (fact c1 c2 c3 c4 c5 c6 c7 c8 c9 c10 c11)+
qed

theorem WorkTypeBase_validation_witness:
  "isInvalidRate (make_WorkTypeBase '''' 10 (Some NoBonusStrategy)) \<and>
   isInvalidRate (fst (addWorkType new_PayrollDepartment '''' 10 0)) \<and>
   isInvalidRate (fst (addWorkType new_PayrollDepartment ''welding'' 0 0)) \<and>
   isInvalidRate (fst (addWorkType new_PayrollDepartment ''welding'' (- 5) 0)) \<and>
   isInvalidRate (fst (addWorkType new_PayrollDepartment ''welding'' 1000001 0)) \<and>
   make_WorkTypeBase ''welding'' 1000000 (Some NoBonusStrategy) =
     Inr \<lparr>name = ''welding'', basePay = 1000000, bonusStrategy = NoBonusStrategy\<rparr> \<and>
   fst (addWorkType new_PayrollDepartment ''welding'' 1000000 0) = Inr ()"
proof -
  have fresh: "\<not> existsWorkType new_PayrollDepartment ''welding''"
    by (simp add: existsWorkType_def new_PayrollDepartment_def)
  from WorkTypeBase_validation [of "''''" 10 "Some NoBonusStrategy" NoBonusStrategy "[]" 0
      new_PayrollDepartment]
    WorkTypeBase_validation [of "''welding''" 10 "Some NoBonusStrategy" NoBonusStrategy "[]" 0
      new_PayrollDepartment]
    fresh
  show ?thesis
    by simp
qed

subsection \<open>The listing\<close>

text \<open>
  Claim C7. \<open>printAll\<close> never throws. It writes, for every stored work type in the order
  of insertion, the name, the base pay and the final pay; for the empty department it
  writes the notice that the list is empty, which is not an error. After one successful
  \<open>addWorkType\<close> on the empty department the listing has exactly one triple: the name and
  the base pay that were inserted and the final pay of the stored entry, which is the base
  pay itself when the bonus percent is 0.
\<close>

theorem printAll_listing:
  "fst (printAll d) = Inr () \<and>
   listed (snd (snd (printAll d))) =
     map (\<lambda>w. (getName w, getBasePay w, getFinalPay w)) (workTypes d) \<and>
   (workTypes d = [] \<longrightarrow> snd (snd (printAll d)) = [ListEmptyNotice]) \<and>
   (workTypes d \<noteq> [] \<longrightarrow>
      snd (snd (printAll d)) =
        ListHeader # map (\<lambda>w. ListLine (getName w) (getBasePay w) (getFinalPay w)) (workTypes d)) \<and>
   (fst (addWorkType new_PayrollDepartment nm pay bonusPercent) = Inr () \<longrightarrow>
      listed (snd (snd (printAll (fst (snd (addWorkType new_PayrollDepartment nm pay bonusPercent)))))) =
        [(nm, pay,
          getFinalPay \<lparr>name = nm, basePay = pay,
            bonusStrategy = (if bonusPercent = 0 then NoBonusStrategy
                             else PercentageBonusStrategy bonusPercent)\<rparr>)] \<and>
      workTypes (fst (snd (addWorkType new_PayrollDepartment nm pay bonusPercent))) =
        [\<lparr>name = nm, basePay = pay,
          bonusStrategy = (if bonusPercent = 0 then NoBonusStrategy
                           else PercentageBonusStrategy bonusPercent)\<rparr>] \<and>
      (bonusPercent = 0 \<longrightarrow>
         listed (snd (snd (printAll (fst (snd (addWorkType new_PayrollDepartment nm pay
           bonusPercent)))))) = [(nm, pay, Finite pay)]))"
proof -
  have c1: "fst (printAll d) = Inr ()"
    by (simp add: printAll_def)
  have all: "listed (snd (snd (printAll e))) =
     map (\<lambda>w. (getName w, getBasePay w, getFinalPay w)) (workTypes e)" for e
    by (simp add: printAll_def listed_print_loop)
  have c3: "workTypes d = [] \<longrightarrow> snd (snd (printAll d)) = [ListEmptyNotice]"
    by (simp add: printAll_def)
  have c4: "workTypes d \<noteq> [] \<longrightarrow>
      snd (snd (printAll d)) =
        ListHeader # map (\<lambda>w. ListLine (getName w) (getBasePay w) (getFinalPay w)) (workTypes d)"
    by (simp add: printAll_def print_loop_eq)
  have c5: "fst (addWorkType new_PayrollDepartment nm pay bonusPercent) = Inr () \<longrightarrow>
      listed (snd (snd (printAll (fst (snd (addWorkType new_PayrollDepartment nm pay bonusPercent)))))) =
        [(nm, pay,
          getFinalPay \<lparr>name = nm, basePay = pay,
            bonusStrategy = (if bonusPercent = 0 then NoBonusStrategy
                             else PercentageBonusStrategy bonusPercent)\<rparr>)] \<and>
      workTypes (fst (snd (addWorkType new_PayrollDepartment nm pay bonusPercent))) =
        [\<lparr>name = nm, basePay = pay,
          bonusStrategy = (if bonusPercent = 0 then NoBonusStrategy
                           else PercentageBonusStrategy bonusPercent)\<rparr>] \<and>
      (bonusPercent = 0 \<longrightarrow>
         listed (snd (snd (printAll (fst (snd (addWorkType new_PayrollDepartment nm pay
           bonusPercent)))))) = [(nm, pay, Finite pay)])"
  proof
    assume ok: "fst (addWorkType new_PayrollDepartment nm pay bonusPercent) = Inr ()"
    from addWorkType_success_appends [OF ok]
    have ws: "workTypes (fst (snd (addWorkType new_PayrollDepartment nm pay bonusPercent))) =
        [\<lparr>name = nm, basePay = pay,
          bonusStrategy = (if bonusPercent = 0 then NoBonusStrategy
                           else PercentageBonusStrategy bonusPercent)\<rparr>]"
      by (simp add: new_PayrollDepartment_def)
    have "listed (snd (snd (printAll (fst (snd (addWorkType new_PayrollDepartment nm pay bonusPercent)))))) =
        map (\<lambda>w. (getName w, getBasePay w, getFinalPay w))
          [\<lparr>name = nm, basePay = pay,
            bonusStrategy = (if bonusPercent = 0 then NoBonusStrategy
                             else PercentageBonusStrategy bonusPercent)\<rparr>]"
      by (simp only: all ws)
    then have line: "listed (snd (snd (printAll (fst (snd (addWorkType new_PayrollDepartment nm pay bonusPercent)))))) =
        [(nm, pay,
          getFinalPay \<lparr>name = nm, basePay = pay,
            bonusStrategy = (if bonusPercent = 0 then NoBonusStrategy
                             else PercentageBonusStrategy bonusPercent)\<rparr>)]"
      by (simp add: getName_def getBasePay_def)
    have plain: "bonusPercent = 0 \<longrightarrow>
        getFinalPay \<lparr>name = nm, basePay = pay,
            bonusStrategy = (if bonusPercent = 0 then NoBonusStrategy
                             else PercentageBonusStrategy bonusPercent)\<rparr> = Finite pay"
      by (simp add: getFinalPay_def)
    have zero: "bonusPercent = 0 \<longrightarrow>
         listed (snd (snd (printAll (fst (snd (addWorkType new_PayrollDepartment nm pay
           bonusPercent)))))) = [(nm, pay, Finite pay)]"
    proof
      assume "bonusPercent = 0"
      with plain have "getFinalPay \<lparr>name = nm, basePay = pay,
            bonusStrategy = (if bonusPercent = 0 then NoBonusStrategy
                             else PercentageBonusStrategy bonusPercent)\<rparr> = Finite pay"
        by (rule mp)
      then show "listed (snd (snd (printAll (fst (snd (addWorkType new_PayrollDepartment nm pay
           bonusPercent)))))) = [(nm, pay, Finite pay)]"
        by (simp only: line)
    qed
    show "listed (snd (snd (printAll (fst (snd (addWorkType new_PayrollDepartment nm pay bonusPercent)))))) =
        [(nm, pay,
          getFinalPay \<lparr>name = nm, basePay = pay,
            bonusStrategy = (if bonusPercent = 0 then NoBonusStrategy
                             else PercentageBonusStrategy bonusPercent)\<rparr>)] \<and>
      workTypes (fst (snd (addWorkType new_PayrollDepartment nm pay bonusPercent))) =
        [\<lparr>name = nm, basePay = pay,
          bonusStrategy = (if bonusPercent = 0 then NoBonusStrategy
                           else PercentageBonusStrategy bonusPercent)\<rparr>] \<and>
      (bonusPercent = 0 \<longrightarrow>
         listed (snd (snd (printAll (fst (snd (addWorkType new_PayrollDepartment nm pay
           bonusPercent)))))) = [(nm, pay, Finite pay)])"
      by (intro conjI) (fact line ws zero)+
  qed
  show ?thesis
    by (intro conjI) (fact c1 all c3 c4 c5)+
qed

theorem printAll_listing_witness:
  "printAll new_PayrollDepartment = (Inr (), new_PayrollDepartment, [ListEmptyNotice]) \<and>
   fst (addWorkType new_PayrollDepartment ''welding'' 200 50) = Inr () \<and>
   listed (snd (snd (printAll (fst (snd (addWorkType new_PayrollDepartment ''welding'' 200 50)))))) =
     [(''welding'', 200, Finite 300)]"
proof -
  have ok: "fst (addWorkType new_PayrollDepartment ''welding'' 200 50) = Inr ()"
    by (simp add: run_defs)
  have empty: "workTypes new_PayrollDepartment = []"
    by (simp add: new_PayrollDepartment_def)
  have state: "fst (snd (printAll new_PayrollDepartment)) = new_PayrollDepartment"
    by (rule printAll_state)
  have pay: "getFinalPay \<lparr>name = ''welding'', basePay = 200,
      bonusStrategy = PercentageBonusStrategy 50\<rparr> = Finite 300"
    using computePay_examples(1) by (simp add: getFinalPay_def del: computePay.simps(2))
  from printAll_listing [of new_PayrollDepartment "''welding''" 200 50] ok empty state pay
  show ?thesis
    by (cases "printAll new_PayrollDepartment") simp
qed

subsection \<open>The number of entries never decreases\<close>

text \<open>
  Claim C8. A successful \<open>addWorkType\<close> appends exactly one entry, a failed one and the two
  queries leave the entries as they are. Hence over every turn and every sequence of turns
  the entries present before are still there, in the same places, and the number of entries
  does not decrease.
\<close>

theorem entry_count_monotone:
  "(fst (addWorkType d nm pay bonusPercent) = Inr () \<longrightarrow>
      (\<exists>w. workTypes (fst (snd (addWorkType d nm pay bonusPercent))) = workTypes d @ [w]) \<and>
      length (workTypes (fst (snd (addWorkType d nm pay bonusPercent)))) =
        length (workTypes d) + 1) \<and>
   (fst (addWorkType d nm pay bonusPercent) \<noteq> Inr () \<longrightarrow>
      workTypes (fst (snd (addWorkType d nm pay bonusPercent))) = workTypes d) \<and>
   workTypes (snd (calculateAveragePay d)) = workTypes d \<and>
   workTypes (fst (snd (printAll d))) = workTypes d \<and>
   length (workTypes d) \<le> length (workTypes (serve d r)) \<and>
   take (length (workTypes d)) (workTypes (serve d r)) = workTypes d \<and>
   length (workTypes d) \<le> length (workTypes (serve_all d rs)) \<and>
   take (length (workTypes d)) (workTypes (serve_all d rs)) = workTypes d"
proof -
  have c1: "fst (addWorkType d nm pay bonusPercent) = Inr () \<longrightarrow>
      (\<exists>w. workTypes (fst (snd (addWorkType d nm pay bonusPercent))) = workTypes d @ [w]) \<and>
      length (workTypes (fst (snd (addWorkType d nm pay bonusPercent)))) =
        length (workTypes d) + 1"
    by (simp add: addWorkType_success_appends)
  have c2: "fst (addWorkType d nm pay bonusPercent) \<noteq> Inr () \<longrightarrow>
      workTypes (fst (snd (addWorkType d nm pay bonusPercent))) = workTypes d"
    by (simp add: addWorkType_failure_unchanged)
  have c3: "workTypes (snd (calculateAveragePay d)) = workTypes d"
    by (simp only: calculateAveragePay_state)
  have c4: "workTypes (fst (snd (printAll d))) = workTypes d"
    by (simp only: printAll_state)
  show ?thesis
    by (intro conjI) (fact c1 c2 c3 c4 serve_length serve_extends serve_all_length
        serve_all_extends)+
qed

theorem entry_count_monotone_witness:
  "fst (addWorkType new_PayrollDepartment ''welding'' 10 0) = Inr () \<and>
   length (workTypes (fst (snd (addWorkType new_PayrollDepartment ''welding'' 10 0)))) = 1 \<and>
   fst (addWorkType new_PayrollDepartment ''welding'' 10 101) \<noteq> Inr () \<and>
   workTypes (fst (snd (addWorkType new_PayrollDepartment ''welding'' 10 101))) = []"
proof -
  have ok: "fst (addWorkType new_PayrollDepartment ''welding'' 10 0) = Inr ()"
    by (simp add: run_defs)
  have bad: "fst (addWorkType new_PayrollDepartment ''welding'' 10 101) \<noteq> Inr ()"
    by (simp add: run_defs)
  have empty: "workTypes new_PayrollDepartment = []"
    by (simp add: new_PayrollDepartment_def)
  from entry_count_monotone [of new_PayrollDepartment "''welding''" 10 0 PrintAll "[]"]
    entry_count_monotone [of new_PayrollDepartment "''welding''" 10 101 PrintAll "[]"]
    ok bad empty
  show ?thesis
    by simp
qed

subsection \<open>The warning about a long name\<close>

text \<open>
  Claim C9. \<open>addWorkType\<close> writes the warning about a long name exactly when the name is
  longer than 50 (\<open>size()\<close> counts the \<open>char\<close>s of the string). The warning does not depend
  on the outcome: it is also written by a call that then throws
  \<open>DuplicateWorkTypeException\<close> or \<open>InvalidRateException\<close>.
\<close>

theorem long_name_warning:
  "snd (snd (addWorkType d nm pay bonusPercent)) =
     (if length nm > 50 then [LongNameWarning] else []) \<and>
   (LongNameWarning \<in> set (snd (snd (addWorkType d nm pay bonusPercent))) \<longleftrightarrow>
      length nm > 50) \<and>
   (length nm > 50 \<and> existsWorkType d nm \<longrightarrow>
      isDuplicateWorkType (fst (addWorkType d nm pay bonusPercent)) \<and>
      snd (snd (addWorkType d nm pay bonusPercent)) = [LongNameWarning]) \<and>
   (length nm > 50 \<and> \<not> existsWorkType d nm \<and>
    (pay \<le> 0 \<or> pay > 1000000 \<or> bonusPercent < 0 \<or> bonusPercent > 100) \<longrightarrow>
      isInvalidRate (fst (addWorkType d nm pay bonusPercent)) \<and>
      snd (snd (addWorkType d nm pay bonusPercent)) = [LongNameWarning])"
proof -
  have c1: "snd (snd (addWorkType d nm pay bonusPercent)) =
     (if length nm > 50 then [LongNameWarning] else [])"
    by (rule addWorkType_warning)
  have c2: "LongNameWarning \<in> set (snd (snd (addWorkType d nm pay bonusPercent))) \<longleftrightarrow>
      length nm > 50"
    by (simp add: addWorkType_warning)
  have c3: "length nm > 50 \<and> existsWorkType d nm \<longrightarrow>
      isDuplicateWorkType (fst (addWorkType d nm pay bonusPercent)) \<and>
      snd (snd (addWorkType d nm pay bonusPercent)) = [LongNameWarning]"
    by (simp add: addWorkType_duplicate isDuplicateWorkType_def)
  have c4: "length nm > 50 \<and> \<not> existsWorkType d nm \<and>
    (pay \<le> 0 \<or> pay > 1000000 \<or> bonusPercent < 0 \<or> bonusPercent > 100) \<longrightarrow>
      isInvalidRate (fst (addWorkType d nm pay bonusPercent)) \<and>
      snd (snd (addWorkType d nm pay bonusPercent)) = [LongNameWarning]"
    by (auto simp: addWorkType_invalid_iff addWorkType_warning)
  show ?thesis
    by (intro conjI) (fact c1 c2 c3 c4)+
qed

theorem long_name_warning_witness:
  "length (replicate 51 CHR ''x'') > 50 \<and>
   isInvalidRate (fst (addWorkType new_PayrollDepartment (replicate 51 CHR ''x'') 0 0)) \<and>
   snd (snd (addWorkType new_PayrollDepartment (replicate 51 CHR ''x'') 0 0)) = [LongNameWarning] \<and>
   existsWorkType (serve new_PayrollDepartment (AddWorkType (replicate 51 CHR ''x'') 10 0))
     (replicate 51 CHR ''x'') \<and>
   isDuplicateWorkType (fst (addWorkType
     (serve new_PayrollDepartment (AddWorkType (replicate 51 CHR ''x'') 10 0))
     (replicate 51 CHR ''x'') 10 0)) \<and>
   snd (snd (addWorkType
     (serve new_PayrollDepartment (AddWorkType (replicate 51 CHR ''x'') 10 0))
     (replicate 51 CHR ''x'') 10 0)) = [LongNameWarning] \<and>
   snd (snd (addWorkType new_PayrollDepartment (replicate 50 CHR ''x'') 10 0)) = []"
proof -
  have fresh: "\<not> existsWorkType new_PayrollDepartment (replicate 51 CHR ''x'')"
    by (simp add: existsWorkType_def new_PayrollDepartment_def)
  have there: "existsWorkType (serve new_PayrollDepartment (AddWorkType (replicate 51 CHR ''x'') 10 0))
     (replicate 51 CHR ''x'')"
    by (simp add: run_defs)
  from long_name_warning [of new_PayrollDepartment "replicate 51 CHR ''x''" 0 0]
    long_name_warning [of "serve new_PayrollDepartment (AddWorkType (replicate 51 CHR ''x'') 10 0)"
      "replicate 51 CHR ''x''" 10 0]
    long_name_warning [of new_PayrollDepartment "replicate 50 CHR ''x''" 10 0]
    fresh there
  show ?thesis
    by simp
qed

subsection \<open>The queries do not change the department\<close>

text \<open>
  Claim C10. \<open>calculateAveragePay\<close> and \<open>printAll\<close> return the department as they found
  it, with the same entries, whether they succeed or throw.
\<close>

theorem queries_preserve_registry:
  "snd (calculateAveragePay d) = d \<and>
   fst (snd (printAll d)) = d \<and>
   serve d CalculateAveragePay = d \<and>
   serve d PrintAll = d"
  by (simp add: calculateAveragePay_state printAll_state)

end
